theory Spec2Isabelle
  imports Main "HOL-Library.Log_Nat"
begin

section \<open>Python values used by the wallet module\<close>

text \<open>
  A Python \<open>str\<close> is a sequence of Unicode code points and \<open>len\<close> counts code points,
  so a string is a list of code points here. \<open>encode_utf8\<close> is \<open>str.encode("utf-8")\<close>
  (well-formed strings, no surrogates): its length is the size of the string in bytes.
\<close>

type_synonym pystr = "nat list"

type_synonym bytes = "nat list"

definition utf8_char :: "nat \<Rightarrow> bytes" where
  "utf8_char c =
     (if c < 128 then [c]
      else if c < 2048 then [192 + c div 64, 128 + c mod 64]
      else if c < 65536 then [224 + c div 4096, 128 + (c div 64) mod 64, 128 + c mod 64]
      else [240 + c div 262144, 128 + (c div 4096) mod 64, 128 + (c div 64) mod 64,
            128 + c mod 64])"

definition encode_utf8 :: "pystr \<Rightarrow> bytes" where
  "encode_utf8 s = concat (map utf8_char s)"

text \<open>
  The exceptions the module raises or lets through. \<open>MetadataFormattingException\<close> is
  the module's own exception class; its argument records which message it carries.
  \<open>InvalidArgumentException\<close> is what the library's \<open>Metadata\<close> raises.
\<close>

datatype msg = KeyTooLong | FieldTooLong | MessageTooLong | MessageNotStr | CannotFormat

datatype error =
    MetadataFormattingException msg
  | TypeError
  | ValueError
  | AttributeError
  | ZeroDivisionError
  | OverflowError
  | InvalidArgumentException

section \<open>format_message\<close>

text \<open>\<open>range(start, stop, step)\<close> for a positive step, and the slice \<open>xs[i:j]\<close>.\<close>

definition py_range :: "nat \<Rightarrow> nat \<Rightarrow> nat \<Rightarrow> nat list" where
  "py_range start stop step = filter (\<lambda>i. (i - start) mod step = 0) [start..<stop]"

definition slice :: "'a list \<Rightarrow> nat \<Rightarrow> nat \<Rightarrow> 'a list" where
  "slice xs i j = take (j - i) (drop i xs)"

datatype message = MsgStr pystr | MsgList "pystr list"

text \<open>
  The loop of \<open>format_message\<close> over the lines. The lines are strings by their type, so
  the test \<open>not isinstance(line, str)\<close> that follows the length test never fires.
\<close>

fun check_lines :: "pystr list \<Rightarrow> error + unit" where
  "check_lines [] = Inr ()"
| "check_lines (l # ls) =
     (if length l > 64 then Inl (MetadataFormattingException MessageTooLong)
      else check_lines ls)"

text \<open>\<open>format_message\<close> returns \<open>{"msg": message}\<close>; the model returns the list under "msg".\<close>

definition format_message :: "message \<Rightarrow> error + pystr list" where
  "format_message message =
     (let lines = (case message of
                     MsgStr s \<Rightarrow> map (\<lambda>i. slice s i (i + 64)) (py_range 0 (length s) 64)
                   | MsgList ls \<Rightarrow> ls)
      in case check_lines lines of Inl e \<Rightarrow> Inl e | Inr _ \<Rightarrow> Inr lines)"

section \<open>Metadata values and their validation\<close>

text \<open>
  Metadata is a JSON-like tree: dictionaries (in insertion order, keys strings or
  integers), lists, strings, integers, booleans and \<open>None\<close>.
\<close>

datatype mkey = KStr pystr | KInt int

datatype meta =
    MDict "(mkey \<times> meta) list"
  | MList "meta list"
  | MStr pystr
  | MInt int
  | MBool bool
  | MNone

text \<open>
  The validators measure \<open>len(str(x))\<close>. \<open>str\<close> of a string is the string; \<open>str\<close> of
  anything else is its \<open>repr\<close>, and a container shows the \<open>repr\<close> of its elements,
  separated by a comma and a space. The \<open>repr\<close> of a string adds two quotes and escapes
  some characters; which code points beyond ASCII are printable is a table of the Unicode
  database, the parameter \<open>pr\<close>.
\<close>

fun ndigits :: "nat \<Rightarrow> nat" where
  "ndigits n = (if n < 10 then 1 else Suc (ndigits (n div 10)))"

definition int_str_len :: "int \<Rightarrow> nat" where
  "int_str_len i = (if i < 0 then 1 else 0) + ndigits (nat \<bar>i\<bar>)"

definition quote_char :: "pystr \<Rightarrow> nat" where
  "quote_char s = (if 39 \<in> set s \<and> 34 \<notin> set s then 34 else 39)"

definition esc_len :: "(nat \<Rightarrow> bool) \<Rightarrow> nat \<Rightarrow> nat \<Rightarrow> nat" where
  "esc_len pr q c =
     (if c = q \<or> c = 92 then 2
      else if c = 9 \<or> c = 10 \<or> c = 13 then 2
      else if c < 32 \<or> c = 127 then 4
      else if c < 127 then 1
      else if pr c then 1
      else if c < 256 then 4
      else if c < 65536 then 6
      else 10)"

definition str_repr_len :: "(nat \<Rightarrow> bool) \<Rightarrow> pystr \<Rightarrow> nat" where
  "str_repr_len pr s = 2 + sum_list (map (esc_len pr (quote_char s)) s)"

fun key_repr_len :: "(nat \<Rightarrow> bool) \<Rightarrow> mkey \<Rightarrow> nat" where
  "key_repr_len pr (KStr s) = str_repr_len pr s"
| "key_repr_len pr (KInt i) = int_str_len i"

fun key_str_len :: "mkey \<Rightarrow> nat" where
  "key_str_len (KStr s) = length s"
| "key_str_len (KInt i) = int_str_len i"

fun repr_len :: "(nat \<Rightarrow> bool) \<Rightarrow> meta \<Rightarrow> nat" where
  "repr_len pr (MDict kvs) =
     2 + sum_list (map (\<lambda>kv. key_repr_len pr (fst kv) + 2 + repr_len pr (snd kv)) kvs)
       + 2 * (length kvs - 1)"
| "repr_len pr (MList xs) = 2 + sum_list (map (repr_len pr) xs) + 2 * (length xs - 1)"
| "repr_len pr (MStr s) = str_repr_len pr s"
| "repr_len pr (MInt i) = int_str_len i"
| "repr_len pr (MBool b) = (if b then 4 else 5)"
| "repr_len pr MNone = 4"

fun str_len :: "(nat \<Rightarrow> bool) \<Rightarrow> meta \<Rightarrow> nat" where
  "str_len pr (MStr s) = length s"
| "str_len pr x = repr_len pr x"

fun is_container :: "meta \<Rightarrow> bool" where
  "is_container (MDict kvs) = True"
| "is_container (MList xs) = True"
| "is_container x = False"

text \<open>
  \<open>json.dumps\<close> raises \<open>TypeError\<close> on a value that is not made of dictionaries, lists,
  strings, numbers, booleans and \<open>None\<close>; every value of type \<open>meta\<close> is, so on this type
  the \<open>top_level\<close> test of the validators cannot fail.
\<close>

definition json_dumps :: "meta \<Rightarrow> error + unit" where
  "json_dumps to_check = Inr ()"

subsection \<open>The module function check_metadata\<close>

text \<open>The loop over the items of a list: the items are measured, not entered.\<close>

fun check_list_items :: "(nat \<Rightarrow> bool) \<Rightarrow> meta list \<Rightarrow> error + unit" where
  "check_list_items pr [] = Inr ()"
| "check_list_items pr (item # items) =
     (if str_len pr item > 64 then Inl (MetadataFormattingException FieldTooLong)
      else check_list_items pr items)"

text \<open>
  The body of \<open>check_metadata\<close> before its \<open>top_level\<close> test (the recursive calls pass
  \<open>top_level=False\<close>), and its loop over the items of a dictionary.
\<close>

fun check_metadata_body :: "(nat \<Rightarrow> bool) \<Rightarrow> meta \<Rightarrow> error + unit"
  and check_metadata_dict :: "(nat \<Rightarrow> bool) \<Rightarrow> (mkey \<times> meta) list \<Rightarrow> error + unit" where
  "check_metadata_body pr (MDict kvs) = check_metadata_dict pr kvs"
| "check_metadata_body pr (MList xs) = check_list_items pr xs"
| "check_metadata_body pr (MStr s) =
     (if length s > 64 then Inl (MetadataFormattingException FieldTooLong) else Inr ())"
| "check_metadata_body pr (MInt i) = Inr ()"
| "check_metadata_body pr (MBool b) = Inr ()"
| "check_metadata_body pr MNone = Inr ()"
| "check_metadata_dict pr [] = Inr ()"
| "check_metadata_dict pr ((key, v) # rest) =
     (if key_str_len key > 64 then Inl (MetadataFormattingException KeyTooLong)
      else case (if is_container v then check_metadata_body pr v
                 else if str_len pr v > 64 then Inl (MetadataFormattingException FieldTooLong)
                 else Inr ()) of
             Inl e \<Rightarrow> Inl e
           | Inr _ \<Rightarrow> check_metadata_dict pr rest)"

definition check_metadata :: "(nat \<Rightarrow> bool) \<Rightarrow> meta \<Rightarrow> bool \<Rightarrow> error + unit" where
  "check_metadata pr to_check top_level =
     (case check_metadata_body pr to_check of
        Inl e \<Rightarrow> Inl e
      | Inr _ \<Rightarrow> if top_level then json_dumps to_check else Inr ())"

subsection \<open>The method Token._check_metadata\<close>

text \<open>
  The method enters the items of a list, and in its last branch (the comment there says
  "must be a string") takes \<open>len\<close> of the value: \<open>len\<close> of an integer, a boolean or
  \<open>None\<close> raises \<open>TypeError\<close>.
\<close>

fun Token_check_body :: "(nat \<Rightarrow> bool) \<Rightarrow> meta \<Rightarrow> error + unit"
  and Token_check_dict :: "(nat \<Rightarrow> bool) \<Rightarrow> (mkey \<times> meta) list \<Rightarrow> error + unit"
  and Token_check_list :: "(nat \<Rightarrow> bool) \<Rightarrow> meta list \<Rightarrow> error + unit" where
  "Token_check_body pr (MDict kvs) = Token_check_dict pr kvs"
| "Token_check_body pr (MList xs) = Token_check_list pr xs"
| "Token_check_body pr (MStr s) =
     (if length s > 64 then Inl (MetadataFormattingException FieldTooLong) else Inr ())"
| "Token_check_body pr (MInt i) = Inl TypeError"
| "Token_check_body pr (MBool b) = Inl TypeError"
| "Token_check_body pr MNone = Inl TypeError"
| "Token_check_dict pr [] = Inr ()"
| "Token_check_dict pr ((key, v) # rest) =
     (if key_str_len key > 64 then Inl (MetadataFormattingException KeyTooLong)
      else case (if is_container v then Token_check_body pr v
                 else if str_len pr v > 64 then Inl (MetadataFormattingException FieldTooLong)
                 else Inr ()) of
             Inl e \<Rightarrow> Inl e
           | Inr _ \<Rightarrow> Token_check_dict pr rest)"
| "Token_check_list pr [] = Inr ()"
| "Token_check_list pr (item # items) =
     (case Token_check_body pr item of
        Inl e \<Rightarrow> Inl e
      | Inr _ \<Rightarrow> Token_check_list pr items)"

definition Token_check_metadata :: "(nat \<Rightarrow> bool) \<Rightarrow> meta \<Rightarrow> bool \<Rightarrow> error + unit" where
  "Token_check_metadata pr to_check top_level =
     (case Token_check_body pr to_check of
        Inl e \<Rightarrow> Inl e
      | Inr _ \<Rightarrow> if top_level then json_dumps to_check else Inr ())"

subsection \<open>Leaf strings of a metadata value\<close>





section \<open>Python numbers\<close>

text \<open>
  An \<open>int\<close> is unbounded. A \<open>float\<close> is an IEEE 754 binary64 number; a finite one is
  the rational it denotes. \<open>fl q\<close> is the binary64 number nearest to \<open>q\<close> (ties to the
  even significand; 53 bits of precision, exponents from -1022 up), the result of every
  correctly rounded operation; a result of magnitude \<open>2 ^ 1024\<close> or more is an overflow.
  The sign of a zero is not kept.
\<close>

definition rne :: "rat \<Rightarrow> int" where
  "rne q = (let f = \<lfloor>q\<rfloor>; d = q - of_int f
            in if d < 1 / 2 then f else if 1 / 2 < d then f + 1
               else if even f then f else f + 1)"

text \<open>For \<open>q > 0\<close>, \<open>ilog2 q\<close> is the exponent \<open>e\<close> with \<open>2 powi e \<le> q < 2 powi (e + 1)\<close>.\<close>

definition ilog2 :: "rat \<Rightarrow> int" where
  "ilog2 q = (let e0 = bitlen (fst (quotient_of q)) - bitlen (snd (quotient_of q))
              in if 2 powi e0 \<le> q then e0 else e0 - 1)"

definition fl :: "rat \<Rightarrow> rat" where
  "fl q = (if q = 0 then 0
           else let u = 2 powi (max (ilog2 \<bar>q\<bar>) (- 1022) - 52)
                in of_int (rne (q / u)) * u)"

definition overflows :: "rat \<Rightarrow> bool" where
  "overflows r = (2 ^ 1024 \<le> \<bar>r\<bar>)"

text \<open>\<open>int(x)\<close> of a float truncates toward zero.\<close>

definition py_trunc :: "rat \<Rightarrow> int" where
  "py_trunc q = (if 0 \<le> q then \<lfloor>q\<rfloor> else \<lceil>q\<rceil>)"

datatype pynum = PInt int | PFloat rat

datatype binop = Add | Sub | Mul | TrueDiv | FloorDiv

fun bind :: "error + 'a \<Rightarrow> ('a \<Rightarrow> error + 'b) \<Rightarrow> error + 'b" where
  "bind (Inl e) f = Inl e"
| "bind (Inr x) f = f x"

text \<open>
  The result of a float operation on finite operands is a finite float or an infinity;
  \<open>None\<close> stands for the infinity.
\<close>

definition to_float :: "rat \<Rightarrow> pynum option" where
  "to_float q = (if overflows (fl q) then None else Some (PFloat (fl q)))"

text \<open>\<open>i / j\<close> of two ints is the correctly rounded quotient, \<open>OverflowError\<close> when too large.\<close>

definition int_truediv :: "int \<Rightarrow> int \<Rightarrow> error + rat" where
  "int_truediv a b =
     (if b = 0 then Inl ZeroDivisionError
      else if overflows (fl (of_int a / of_int b)) then Inl OverflowError
      else Inr (fl (of_int a / of_int b)))"

text \<open>An int operand of a float operation is converted first (\<open>OverflowError\<close> when too large).\<close>

fun as_float :: "pynum \<Rightarrow> error + rat" where
  "as_float (PInt i) = (if overflows (fl (of_int i)) then Inl OverflowError else Inr (fl (of_int i)))"
| "as_float (PFloat q) = Inr q"

text \<open>
  Floor division of floats, as the interpreter computes it: from the exact remainder
  \<open>fmod\<close>, the quotient of the difference, a correction by one when remainder and divisor
  differ in sign, and the floor of that, moved up when the quotient lies more than a half
  above it.
\<close>

definition float_floordiv :: "rat \<Rightarrow> rat \<Rightarrow> pynum option" where
  "float_floordiv vx wx =
     (let md = vx - wx * of_int (py_trunc (vx / wx));
          d0 = fl (fl (vx - md) / wx)
      in if overflows d0 then None
         else let d = (if md \<noteq> 0 \<and> ((wx < 0) \<noteq> (md < 0)) then fl (d0 - 1) else d0)
              in if d \<noteq> 0
                 then (if 1 / 2 < fl (d - of_int \<lfloor>d\<rfloor>) then Some (PFloat (fl (of_int \<lfloor>d\<rfloor> + 1)))
                       else Some (PFloat (of_int \<lfloor>d\<rfloor>)))
                 else Some (PFloat 0))"

fun float_binop :: "binop \<Rightarrow> rat \<Rightarrow> rat \<Rightarrow> error + pynum option" where
  "float_binop Add a b = Inr (to_float (a + b))"
| "float_binop Sub a b = Inr (to_float (a - b))"
| "float_binop Mul a b = Inr (to_float (a * b))"
| "float_binop TrueDiv a b = (if b = 0 then Inl ZeroDivisionError else Inr (to_float (a / b)))"
| "float_binop FloorDiv a b = (if b = 0 then Inl ZeroDivisionError else Inr (float_floordiv a b))"

fun int_binop :: "binop \<Rightarrow> int \<Rightarrow> int \<Rightarrow> error + pynum option" where
  "int_binop Add a b = Inr (Some (PInt (a + b)))"
| "int_binop Sub a b = Inr (Some (PInt (a - b)))"
| "int_binop Mul a b = Inr (Some (PInt (a * b)))"
| "int_binop TrueDiv a b = bind (int_truediv a b) (\<lambda>r. Inr (Some (PFloat r)))"
| "int_binop FloorDiv a b = (if b = 0 then Inl ZeroDivisionError else Inr (Some (PInt (a div b))))"

fun py_binop :: "binop \<Rightarrow> pynum \<Rightarrow> pynum \<Rightarrow> error + pynum option" where
  "py_binop op (PInt a) (PInt b) = int_binop op a b"
| "py_binop op x y = bind (as_float x) (\<lambda>a. bind (as_float y) (\<lambda>b. float_binop op a b))"




fun py_int :: "pynum \<Rightarrow> int" where
  "py_int (PInt i) = i"
| "py_int (PFloat q) = py_trunc q"

section \<open>Amount, Lovelace and Ada\<close>

text \<open>
  \<open>Amount\<close> is a frozen dataclass whose \<open>__post_init__\<close> assigns attributes, which only
  works on the subclasses \<open>Lovelace\<close> and \<open>Ada\<close>; an instance is one of the two. The
  record holds \<open>_amount\<close> and the two views \<open>_lovelace\<close> and \<open>_ada\<close>; \<open>_amount_type\<close> is
  "lovelace" for the class \<open>Lovelace\<close> and "ada" for \<open>Ada\<close>.
\<close>

datatype unit_cls = Lovelace | Ada

record amount =
  cls :: unit_cls
  raw :: pynum
  lovelace :: int
  ada :: pynum

text \<open>
  \<open>Lovelace(amount)\<close>: the guard \<open>isinstance(amount, int)\<close>, then \<open>__post_init__\<close> with
  \<open>int(amount)\<close> and \<open>amount / 1000000\<close>. The argument is the result of an operation,
  possibly the float infinity.
\<close>

fun mk_Lovelace :: "pynum option \<Rightarrow> error + amount" where
  "mk_Lovelace (Some (PInt i)) =
     bind (int_truediv i 1000000)
       (\<lambda>d. Inr \<lparr>cls = Lovelace, raw = PInt i, lovelace = i, ada = PFloat d\<rparr>)"
| "mk_Lovelace r = Inl TypeError"

text \<open>
  \<open>Ada(amount)\<close>: \<open>__post_init__\<close> with \<open>int(amount * 1000000)\<close>; \<open>int\<close> of an infinity
  raises \<open>OverflowError\<close>.
\<close>

fun mk_Ada :: "pynum option \<Rightarrow> error + amount" where
  "mk_Ada None = Inl OverflowError"
| "mk_Ada (Some a) =
     bind (py_binop Mul a (PInt 1000000))
       (\<lambda>m. case m of
               None \<Rightarrow> Inl OverflowError
             | Some m' \<Rightarrow> Inr \<lparr>cls = Ada, raw = a, lovelace = py_int m', ada = a\<rparr>)"

text \<open>\<open>self.__class__(x)\<close>.\<close>

fun construct :: "unit_cls \<Rightarrow> pynum option \<Rightarrow> error + amount" where
  "construct Lovelace r = mk_Lovelace r"
| "construct Ada r = mk_Ada r"

text \<open>The property \<open>amount\<close> and \<open>other[key]\<close> (\<open>__getitem__\<close>) for the key of a class.\<close>

definition amount_of :: "amount \<Rightarrow> pynum" where
  "amount_of self = (case cls self of Lovelace \<Rightarrow> PInt (lovelace self) | Ada \<Rightarrow> ada self)"

definition getitem :: "amount \<Rightarrow> unit_cls \<Rightarrow> pynum" where
  "getitem other key = (case key of Lovelace \<Rightarrow> PInt (lovelace other) | Ada \<Rightarrow> ada other)"

text \<open>An operand: a bare number, another Amount, or anything else.\<close>

datatype operand = Num pynum | Amt amount | Other

text \<open>
  \<open>__add__\<close>, \<open>__sub__\<close>, \<open>__mul__\<close>, \<open>__truediv__\<close> and \<open>__floordiv__\<close> have one body,
  up to the operator.
\<close>

fun amount_binop :: "binop \<Rightarrow> amount \<Rightarrow> operand \<Rightarrow> error + amount" where
  "amount_binop op self (Num n) = bind (py_binop op (amount_of self) n) (construct (cls self))"
| "amount_binop op self (Amt other) =
     bind (py_binop op (amount_of self) (getitem other (cls self))) (construct (cls self))"
| "amount_binop op self Other = Inl TypeError"





text \<open>\<open>as_lovelace\<close> and \<open>as_ada\<close>, the same on both classes.\<close>

definition as_lovelace :: "amount \<Rightarrow> error + amount" where
  "as_lovelace self = mk_Lovelace (Some (PInt (lovelace self)))"

definition as_ada :: "amount \<Rightarrow> error + amount" where
  "as_ada self = mk_Ada (Some (ada self))"

text \<open>
  \<open>Lovelace(v).as_ada().as_lovelace().lovelace\<close>: the minor unit to the major one and
  back. \<open>Lovelace(v)\<close> computes \<open>v / 1000000\<close>, \<open>as_ada\<close> builds \<open>Ada\<close> of that float, whose
  \<open>__post_init__\<close> computes \<open>int(a * 1000000)\<close>, and \<open>as_lovelace\<close> builds \<open>Lovelace\<close> of
  that int.
\<close>

definition round_trip :: "int \<Rightarrow> error + int" where
  "round_trip v =
     bind (mk_Lovelace (Some (PInt v))) (\<lambda>l.
     bind (as_ada l) (\<lambda>a.
     bind (as_lovelace a) (\<lambda>l'. Inr (lovelace l'))))"

text \<open>\<open>bool(amount)\<close> is \<open>bool(self._amount)\<close>.\<close>

fun py_nonzero :: "pynum \<Rightarrow> bool" where
  "py_nonzero (PInt i) = (i \<noteq> 0)"
| "py_nonzero (PFloat q) = (q \<noteq> 0)"

section \<open>The objects a transaction is composed from\<close>

text \<open>
  Hashes, keys and encoded addresses are byte strings. The classes of the library
  (\<open>Address\<close>, \<open>NativeScript\<close>, \<open>StakeCredential\<close>, \<open>Value\<close>, \<open>TransactionOutput\<close> and so
  on) are plain data here; what the library computes from them (hashing, encoding,
  parsing, chain queries) is gathered in the record \<open>externals\<close> below.
\<close>

datatype network = MAINNET | TESTNET

datatype staking = KeyHash bytes | ScriptHash bytes | PointerAddress

record address =
  payment_part :: "bytes option"
  staking_part :: "staking option"
  network :: network

datatype native_script =
    ScriptPubkey bytes
  | ScriptAll "native_script list"
  | ScriptAny "native_script list"
  | ScriptNofK nat "native_script list"
  | InvalidBefore int
  | InvalidHereAfter int

record token_policy =
  policy_name :: pystr
  policy_id :: "pystr option"
  script :: "native_script option"

datatype policy = NativeScriptPolicy native_script | TokenPolicy token_policy

text \<open>A \<open>Token\<close> after \<open>__post_init__\<close>; \<open>bytes_name\<close> is the UTF-8 encoding of \<open>name\<close>.\<close>

record token =
  tok_policy :: policy
  tok_amount :: int
  tok_name :: pystr
  tok_metadata :: meta

datatype key = SigningKey bytes | ExtendedSigningKey bytes

datatype chain_context = BlockFrostChainContext nat | OtherChainContext nat

text \<open>
  The fields of a \<open>Wallet\<close> that composition reads. \<open>stake_verification_key_hash\<close> is
  \<open>self.stake_verification_key.hash()\<close>, absent when the wallet has no stake
  verification key.
\<close>

record wallet =
  w_address :: "address option"
  w_network :: network
  signing_key :: "key option"
  stake_signing_key :: "key option"
  stake_verification_key_hash :: "bytes option"
  w_context :: "chain_context option"

text \<open>What the chain reports of a stake account; \<open>{}\<close> is \<open>no_account\<close>.\<close>

datatype wa_value = WaInt int | WaFloat rat | WaStr pystr

record account_info =
  active :: bool
  withdrawable_amount :: "wa_value option"

definition no_account :: account_info where
  "no_account = \<lparr>active = False, withdrawable_amount = None\<rparr>"

datatype utxo = UTxO bytes nat

text \<open>
  \<open>Asset\<close> maps asset names to quantities, \<open>MultiAsset\<close> maps policy hashes to assets;
  both are dictionaries, kept in insertion order.
\<close>

type_synonym asset = "(bytes \<times> int) list"

type_synonym multi_asset = "(bytes \<times> asset) list"

record py_value =
  coin :: int
  multi_asset :: multi_asset

record transaction_output =
  to_address :: address
  to_amount :: py_value

datatype stake_credential = StakeCredential staking

datatype certificate =
    StakeRegistration stake_credential
  | StakeDelegation stake_credential bytes

text \<open>
  The collaborators: the Unicode table of printable code points, address and hash
  parsing and encoding, script hashing, \<open>bytes.fromhex\<close>, \<open>int\<close> and \<open>isdigit\<close> of a
  string, the script stored in the file \<open>.script\<close> of the default policy directory (if
  the file exists), the accounts a chain context knows (\<open>None\<close> is the API error),
  \<open>min_lovelace\<close>, and whether the constructor \<open>Metadata(all_metadata)\<close> accepts a
  dictionary (it raises \<open>InvalidArgumentException\<close> otherwise).
\<close>

record externals =
  printable :: "nat \<Rightarrow> bool"
  address_from_primitive :: "pystr \<Rightarrow> error + address"
  address_to_primitive :: "address \<Rightarrow> bytes"
  staking_to_primitive :: "staking \<Rightarrow> bytes"
  native_script_hash :: "native_script \<Rightarrow> bytes"
  script_hash_from_primitive :: "pystr option \<Rightarrow> error + bytes"
  script_hash_str :: "bytes \<Rightarrow> pystr"
  bytes_fromhex :: "pystr \<Rightarrow> error + bytes"
  int_of_str :: "pystr \<Rightarrow> error + int"
  isdigit :: "pystr \<Rightarrow> bool"
  policy_file :: "native_script option"
  accounts :: "chain_context \<Rightarrow> address \<Rightarrow> account_info option"
  min_lovelace :: "chain_context \<Rightarrow> transaction_output \<Rightarrow> int"
  metadata_valid :: "(mkey \<times> meta) list \<Rightarrow> bool"

subsection \<open>Dictionaries in insertion order\<close>

text \<open>\<open>d[k] = v\<close>: an existing key keeps its place, a new one goes last.\<close>

fun dict_set :: "('k \<times> 'v) list \<Rightarrow> 'k \<Rightarrow> 'v \<Rightarrow> ('k \<times> 'v) list" where
  "dict_set [] k v = [(k, v)]"
| "dict_set ((k', v') # d) k v = (if k' = k then (k, v) # d else (k', v') # dict_set d k v)"

text \<open>\<open>d.get(k)\<close> is \<open>map_of d k\<close>; an inner dictionary that is missing or empty is falsy.\<close>

definition inner :: "('k \<times> ('j \<times> 'v) list) list \<Rightarrow> 'k \<Rightarrow> ('j \<times> 'v) list" where
  "inner d k = (case map_of d k of None \<Rightarrow> [] | Some i \<Rightarrow> i)"

subsection \<open>Arguments of transact\<close>

datatype 'a one_or_many = One 'a | Many "'a list"

datatype input_thing =
    InAddress address
  | InStr pystr
  | InWallet wallet
  | InUTxO utxo
  | InOther

datatype out_address = OAddress address | OStr pystr | OWallet wallet

datatype out_amount = OAmount amount | ONum pynum

datatype out_tokens = NoTokens | TokenList "token list" | OneToken token

record py_output =
  out_address :: out_address
  out_amount :: out_amount
  out_tokens :: out_tokens

datatype signer = SignerWallet wallet | SignerKey key | SignerNone

datatype stake_target = TargetStr pystr | TargetWallet wallet | TargetAddress address

datatype stake_registration =
    RegBool bool
  | RegOne stake_target
  | RegList "stake_target list"

datatype pool = PoolStr pystr | PoolHash bytes

datatype delegations =
    DelegateStr pystr
  | DelegatePool bytes
  | DelegateDict "(stake_target \<times> pool) list"

datatype withdrawal_value = WithdrawAmount amount | WithdrawBool bool | WithdrawAll | WithdrawOther

datatype withdrawals =
    WithdrawalsBool bool
  | WithdrawalsDict "(stake_target \<times> withdrawal_value) list"

datatype change_address = ChangeStr pystr | ChangeAddress address | ChangeWallet wallet

record transact_args =
  inputs :: "input_thing one_or_many"
  outputs :: "py_output one_or_many option"
  mints :: "token one_or_many option"
  signers :: "signer one_or_many option"
  stake_registration :: "stake_registration option"
  delegations :: "delegations option"
  withdrawals :: "withdrawals option"
  change_address :: "change_address option"
  merge_change :: bool
  message :: "message option"
  other_metadata :: "(mkey \<times> meta) list option"
  build_only :: bool
  submit :: bool
  await_confirmation :: bool
  context_arg :: "chain_context option"

text \<open>
  The transaction builder as \<open>transact\<close> fills it, and what \<open>transact\<close> hands to it at
  the end: \<open>build\<close>, or \<open>build_and_sign\<close> with the signing keys. Submission and the wait
  for confirmation follow outside the model.
\<close>

datatype builder_address = AddressInput address | StrInput pystr

record builder =
  builder_context :: chain_context
  input_addresses :: "builder_address list"
  builder_inputs :: "utxo list"
  ttl :: "int option"
  mint :: "multi_asset option"
  native_scripts :: "native_script option list option"
  auxiliary_data :: "(mkey \<times> meta) list option"
  builder_outputs :: "transaction_output list"
  certificates :: "certificate list option"
  builder_withdrawals :: "(bytes \<times> int) list option"

datatype request =
    Build builder address bool
  | BuildAndSign builder "key list" address bool

section \<open>Wallet properties and chain queries\<close>

text \<open>The properties \<open>stake_address\<close> and \<open>full_address\<close>, and \<open>_find_context\<close>.\<close>

definition stake_address :: "wallet \<Rightarrow> error + address option" where
  "stake_address self =
     (case w_address self of
        None \<Rightarrow> Inl AttributeError
      | Some a \<Rightarrow>
          if stake_signing_key self \<noteq> None \<or> staking_part a \<noteq> None
          then Inr (Some \<lparr>payment_part = None, staking_part = staking_part a,
                          network = w_network self\<rparr>)
          else Inr None)"

definition full_address :: "wallet \<Rightarrow> error + address" where
  "full_address self =
     (case w_address self of
        None \<Rightarrow> Inl AttributeError
      | Some a \<Rightarrow> Inr \<lparr>payment_part = payment_part a, staking_part = staking_part a,
                       network = w_network self\<rparr>)"

definition find_context :: "wallet \<Rightarrow> chain_context option \<Rightarrow> error + chain_context" where
  "find_context self ctx =
     (case ctx of
        Some c \<Rightarrow> Inr c
      | None \<Rightarrow> (case w_context self of None \<Rightarrow> Inl TypeError | Some c \<Rightarrow> Inr c))"

text \<open>
  \<open>get_stake_info\<close> on an \<open>Address\<close> (or \<open>None\<close>, where the attribute access fails):
  only a BlockFrost context has the \<open>api\<close> it queries, and an API error gives \<open>{}\<close>.
\<close>

definition get_stake_info ::
  "externals \<Rightarrow> address option \<Rightarrow> chain_context option \<Rightarrow> error + account_info" where
  "get_stake_info ext stake_addr ctx =
     (case stake_addr of
        None \<Rightarrow> Inl AttributeError
      | Some a \<Rightarrow>
          if staking_part a = None then Inl TypeError
          else (case ctx of
                  Some (BlockFrostChainContext n) \<Rightarrow>
                    Inr (case accounts ext (BlockFrostChainContext n) a of
                           None \<Rightarrow> no_account
                         | Some info \<Rightarrow> info)
                | Some (OtherChainContext n) \<Rightarrow> Inl AttributeError
                | None \<Rightarrow> Inl AttributeError))"

fun wa_truthy :: "wa_value \<Rightarrow> bool" where
  "wa_truthy (WaInt i) = (i \<noteq> 0)"
| "wa_truthy (WaFloat q) = (q \<noteq> 0)"
| "wa_truthy (WaStr s) = (s \<noteq> [])"

fun wa_int :: "externals \<Rightarrow> wa_value \<Rightarrow> error + int" where
  "wa_int ext (WaInt i) = Inr i"
| "wa_int ext (WaFloat q) = Inr (py_trunc q)"
| "wa_int ext (WaStr s) = int_of_str ext s"

text \<open>The property \<open>withdrawable_amount\<close> of a wallet.\<close>

definition wallet_withdrawable_amount :: "externals \<Rightarrow> wallet \<Rightarrow> error + amount" where
  "wallet_withdrawable_amount ext self =
     bind (stake_address self) (\<lambda>sa.
     bind (get_stake_info ext sa (w_context self)) (\<lambda>info.
       case withdrawable_amount info of
         None \<Rightarrow> mk_Lovelace (Some (PInt 0))
       | Some v \<Rightarrow>
           if wa_truthy v then bind (wa_int ext v) (\<lambda>i. mk_Lovelace (Some (PInt i)))
           else mk_Lovelace (Some (PInt 0))))"

section \<open>transact\<close>

subsection \<open>Streamlining the arguments\<close>

fun as_list :: "'a one_or_many \<Rightarrow> 'a list" where
  "as_list (One x) = [x]"
| "as_list (Many xs) = xs"

text \<open>An optional argument: \<open>None\<close> and the empty list are falsy and give \<open>[]\<close>.\<close>

fun opt_list :: "'a one_or_many option \<Rightarrow> 'a list" where
  "opt_list None = []"
| "opt_list (Some x) = as_list x"

fun target_truthy :: "stake_target \<Rightarrow> bool" where
  "target_truthy (TargetStr s) = (s \<noteq> [])"
| "target_truthy t = True"

text \<open>
  \<open>stake_registration_info\<close>. A boolean is neither wrapped (first branch: \<open>not
  isinstance(stake_registration, bool)\<close>) nor a list (second branch), so it falls to the
  last branch and gives \<open>[]\<close>. The value is kept in a type that could hold a boolean,
  because the code below tests \<open>isinstance(stake_registration_info, bool)\<close>.
\<close>

datatype sr_info = InfoList "stake_target list" | InfoBool bool

fun stake_registration_info :: "stake_registration option \<Rightarrow> sr_info" where
  "stake_registration_info None = InfoList []"
| "stake_registration_info (Some (RegBool b)) = InfoList []"
| "stake_registration_info (Some (RegOne t)) = (if target_truthy t then InfoList [t] else InfoList [])"
| "stake_registration_info (Some (RegList ts)) = InfoList ts"

definition output_change_address ::
  "externals \<Rightarrow> wallet \<Rightarrow> change_address option \<Rightarrow> error + address" where
  "output_change_address ext self ca =
     (case ca of
        None \<Rightarrow> full_address self
      | Some (ChangeStr s) \<Rightarrow> if s = [] then full_address self else address_from_primitive ext s
      | Some (ChangeAddress a) \<Rightarrow> Inr a
      | Some (ChangeWallet w) \<Rightarrow> full_address w)"

subsection \<open>Sorting out the mints\<close>

definition policy_hash :: "externals \<Rightarrow> token \<Rightarrow> error + bytes" where
  "policy_hash ext t =
     (case tok_policy t of
        NativeScriptPolicy s \<Rightarrow> Inr (native_script_hash ext s)
      | TokenPolicy tp \<Rightarrow> script_hash_from_primitive ext (policy_id tp))"

text \<open>What a token adds to \<open>native_scripts\<close>: its policy, or the script of its policy.\<close>

definition token_script :: "token \<Rightarrow> native_script option" where
  "token_script t =
     (case tok_policy t of NativeScriptPolicy s \<Rightarrow> Some s | TokenPolicy tp \<Rightarrow> script tp)"

fun meta_truthy :: "meta \<Rightarrow> bool" where
  "meta_truthy (MDict kvs) = (kvs \<noteq> [])"
| "meta_truthy (MList xs) = (xs \<noteq> [])"
| "meta_truthy (MStr s) = (s \<noteq> [])"
| "meta_truthy (MInt i) = (i \<noteq> 0)"
| "meta_truthy (MBool b) = b"
| "meta_truthy MNone = False"

type_synonym mints_dict = "(bytes \<times> (pystr \<times> token) list) list"

type_synonym mint_metadata = "(pystr \<times> (pystr \<times> meta) list) list"

text \<open>
  The first loop over \<open>mint_list\<close>, on the state \<open>(mints_dict, mint_metadata,
  native_scripts)\<close>. A token is stored under its policy and name by assignment
  (\<open>mints_dict[policy_hash][token.name] = token\<close>).
\<close>

fun sort_mints ::
  "externals \<Rightarrow> token list \<Rightarrow> mints_dict \<times> mint_metadata \<times> native_script option list
     \<Rightarrow> error + mints_dict \<times> mint_metadata \<times> native_script option list" where
  "sort_mints ext [] st = Inr st"
| "sort_mints ext (t # ts) (md, mm, ns) =
     bind (policy_hash ext t) (\<lambda>ph.
       let pid = script_hash_str ext ph;
           fresh = (inner md ph = []);
           md1 = (if fresh then dict_set md ph [] else md);
           ns1 = (if fresh \<and> token_script t \<notin> set ns then ns @ [token_script t] else ns);
           md2 = dict_set md1 ph (dict_set (inner md1 ph) (tok_name t) t);
           mm1 = (if meta_truthy (tok_metadata t) \<and> 0 < tok_amount t
                  then let mm0 = (if inner mm pid = [] then dict_set mm pid [] else mm)
                       in dict_set mm0 pid (dict_set (inner mm0 pid) (tok_name t) (tok_metadata t))
                  else mm)
       in sort_mints ext ts (md2, mm1, ns1))"

text \<open>
  The second loop: per policy, \<open>assets\<close> takes every token's amount and \<open>mint_assets\<close>
  the positive ones; \<open>all_assets\<close> takes every policy and \<open>mint_multiasset\<close> those with
  a positive amount. Pairs are \<open>(assets, mint_assets)\<close> and \<open>(mint_multiasset,
  all_assets)\<close>.
\<close>

fun token_assets :: "(pystr \<times> token) list \<Rightarrow> asset \<times> asset \<Rightarrow> asset \<times> asset" where
  "token_assets [] acc = acc"
| "token_assets ((n, t) # ts) (assets, mint_assets) =
     token_assets ts
       (dict_set assets (encode_utf8 (tok_name t)) (tok_amount t),
        if 0 < tok_amount t then dict_set mint_assets (encode_utf8 (tok_name t)) (tok_amount t)
        else mint_assets)"

fun build_assets :: "mints_dict \<Rightarrow> multi_asset \<times> multi_asset \<Rightarrow> multi_asset \<times> multi_asset" where
  "build_assets [] acc = acc"
| "build_assets ((ph, tokens) # ps) (mint_multiasset, all_assets) =
     (let am = token_assets tokens ([], [])
      in build_assets ps
           (if snd am \<noteq> [] then dict_set mint_multiasset ph (snd am) else mint_multiasset,
            dict_set all_assets ph (fst am)))"

subsection \<open>Metadata\<close>

fun message_truthy :: "message \<Rightarrow> bool" where
  "message_truthy (MsgStr s) = (s \<noteq> [])"
| "message_truthy (MsgList ls) = (ls \<noteq> [])"

definition mint_metadata_meta :: "mint_metadata \<Rightarrow> meta" where
  "mint_metadata_meta mm =
     MDict (map (\<lambda>p. (KStr (fst p), MDict (map (\<lambda>q. (KStr (fst q), snd q)) (snd p)))) mm)"

fun add_other_metadata ::
  "externals \<Rightarrow> (mkey \<times> meta) list \<Rightarrow> (mkey \<times> meta) list \<Rightarrow> error + (mkey \<times> meta) list" where
  "add_other_metadata ext [] all_metadata = Inr all_metadata"
| "add_other_metadata ext ((k, v) # kvs) all_metadata =
     bind (check_metadata (printable ext) v False)
       (\<lambda>u. add_other_metadata ext kvs (dict_set all_metadata k v))"

text \<open>
  \<open>all_metadata\<close>: the mint metadata under 721, the message under 674, the rest. When
  it is not empty it is placed in \<open>AuxiliaryData(AlonzoMetadata(metadata=Metadata(all_metadata)))\<close>,
  and the constructor of \<open>Metadata\<close> validates it.
\<close>

definition build_metadata ::
  "externals \<Rightarrow> mint_metadata \<Rightarrow> message option \<Rightarrow> (mkey \<times> meta) list option
     \<Rightarrow> error + (mkey \<times> meta) list" where
  "build_metadata ext mm msg other =
     (let m0 = (if mm \<noteq> [] then [(KInt 721, mint_metadata_meta mm)] else [])
      in bind (case msg of
                 None \<Rightarrow> Inr m0
               | Some m \<Rightarrow>
                   if message_truthy m
                   then bind (format_message m) (\<lambda>lines.
                          Inr (dict_set m0 (KInt 674)
                                 (MDict [(KStr [109, 115, 103], MList (map MStr lines))])))
                   else Inr m0)
           (\<lambda>m1. bind (case other of None \<Rightarrow> Inr m1 | Some kvs \<Rightarrow> add_other_metadata ext kvs m1)
           (\<lambda>m2. if m2 \<noteq> [] \<and> \<not> metadata_valid ext m2 then Inl InvalidArgumentException
                 else Inr m2)))"

subsection \<open>Certificates\<close>

definition own_stake_credential :: "wallet \<Rightarrow> error + stake_credential" where
  "own_stake_credential self =
     (case stake_verification_key_hash self of
        None \<Rightarrow> Inl AttributeError
      | Some h \<Rightarrow> Inr (StakeCredential (KeyHash h)))"

text \<open>
  \<open>if self.stake_signing_key not in signers_list: signers_list.append(...)\<close>; the key of a
  wallet without one is \<open>None\<close>.
\<close>

definition stake_signer :: "wallet \<Rightarrow> signer" where
  "stake_signer self = (case stake_signing_key self of None \<Rightarrow> SignerNone | Some k \<Rightarrow> SignerKey k)"

definition add_stake_signer :: "wallet \<Rightarrow> signer list \<Rightarrow> signer list" where
  "add_stake_signer self signers_list =
     (if stake_signer self \<notin> set signers_list then signers_list @ [stake_signer self]
      else signers_list)"

text \<open>A stake hash that is a pointer address or \<open>None\<close> is refused with \<open>ValueError\<close>.\<close>

fun valid_stake_hash :: "staking option \<Rightarrow> error + staking" where
  "valid_stake_hash None = Inl ValueError"
| "valid_stake_hash (Some PointerAddress) = Inl ValueError"
| "valid_stake_hash (Some h) = Inr h"

text \<open>For a wallet in the list the hash taken is the caller's own (\<open>self\<close>).\<close>

fun registration_hash :: "externals \<Rightarrow> wallet \<Rightarrow> stake_target \<Rightarrow> error + staking option" where
  "registration_hash ext self (TargetStr s) =
     bind (address_from_primitive ext s) (\<lambda>a. Inr (staking_part a))"
| "registration_hash ext self (TargetWallet w) =
     (case stake_verification_key_hash self of
        None \<Rightarrow> Inl AttributeError
      | Some h \<Rightarrow> Inr (Some (KeyHash h)))"
| "registration_hash ext self (TargetAddress a) = Inr (staking_part a)"

fun register_all ::
  "externals \<Rightarrow> wallet \<Rightarrow> stake_target list \<Rightarrow> certificate list \<Rightarrow> error + certificate list" where
  "register_all ext self [] certs = Inr certs"
| "register_all ext self (stake # stakes) certs =
     bind (registration_hash ext self stake) (\<lambda>h.
     bind (valid_stake_hash h) (\<lambda>stake_hash.
       register_all ext self stakes (certs @ [StakeRegistration (StakeCredential stake_hash)])))"

text \<open>
  \<open>if stake_registration_info:\<close> with its two branches, the one for a boolean
  (registering the caller's own wallet) first.
\<close>

fun add_registrations ::
  "externals \<Rightarrow> wallet \<Rightarrow> sr_info \<Rightarrow> certificate list \<Rightarrow> signer list
     \<Rightarrow> error + certificate list \<times> signer list" where
  "add_registrations ext self (InfoBool b) certs signers_list =
     (if b then bind (own_stake_credential self) (\<lambda>c.
                 Inr (certs @ [StakeRegistration c], add_stake_signer self signers_list))
      else Inr (certs, signers_list))"
| "add_registrations ext self (InfoList ts) certs signers_list =
     (if ts = [] then Inr (certs, signers_list)
      else bind (register_all ext self ts certs) (\<lambda>cs. Inr (cs, signers_list)))"

text \<open>
  The delegations. For a dictionary the loop is \<open>for key, value in delegations\<close>, which
  runs over the keys and unpacks each key: a wallet or an address cannot be unpacked
  (\<open>TypeError\<close>), a string unpacks only when it has two characters (\<open>ValueError\<close>
  otherwise), into two strings of one character.
\<close>

fun unpack_key :: "stake_target \<Rightarrow> error + pystr \<times> pystr" where
  "unpack_key (TargetStr s) = (if length s = 2 then Inr ([s ! 0], [s ! 1]) else Inl ValueError)"
| "unpack_key t = Inl TypeError"

fun delegate_all ::
  "externals \<Rightarrow> (stake_target \<times> pool) list \<Rightarrow> certificate list \<Rightarrow> error + certificate list" where
  "delegate_all ext [] certs = Inr certs"
| "delegate_all ext ((k, p) # kps) certs =
     bind (unpack_key k) (\<lambda>kv.
     bind (address_from_primitive ext (fst kv)) (\<lambda>a.
     bind (valid_stake_hash (staking_part a)) (\<lambda>stake_hash.
     bind (bytes_fromhex ext (snd kv)) (\<lambda>pool_hash.
       delegate_all ext kps (certs @ [StakeDelegation (StakeCredential stake_hash) pool_hash])))))"

fun add_delegations ::
  "externals \<Rightarrow> wallet \<Rightarrow> delegations option \<Rightarrow> certificate list \<Rightarrow> signer list
     \<Rightarrow> error + certificate list \<times> signer list" where
  "add_delegations ext self None certs signers_list = Inr (certs, signers_list)"
| "add_delegations ext self (Some (DelegateStr s)) certs signers_list =
     (if s = [] then Inr (certs, signers_list)
      else bind (bytes_fromhex ext s) (\<lambda>pool_hash.
           bind (own_stake_credential self) (\<lambda>c.
             Inr (certs @ [StakeDelegation c pool_hash], add_stake_signer self signers_list))))"
| "add_delegations ext self (Some (DelegatePool h)) certs signers_list =
     bind (own_stake_credential self) (\<lambda>c. Inr (certs @ [StakeDelegation c h], signers_list))"
| "add_delegations ext self (Some (DelegateDict d)) certs signers_list =
     bind (delegate_all ext d certs) (\<lambda>cs. Inr (cs, signers_list))"

subsection \<open>Withdrawals\<close>

text \<open>
  \<open>withdrawals=True\<close>: the caller's withdrawable amount, under the key
  \<open>self.stake_address.to_primitive()\<close>.
\<close>

definition withdraw_self ::
  "externals \<Rightarrow> wallet \<Rightarrow> signer list \<Rightarrow> error + (bytes \<times> int) list \<times> signer list" where
  "withdraw_self ext self signers_list =
     bind (wallet_withdrawable_amount ext self) (\<lambda>amt.
     bind (stake_address self) (\<lambda>sa.
       case sa of
         None \<Rightarrow> Inl AttributeError
       | Some a \<Rightarrow>
           Inr ([(address_to_primitive ext a, lovelace amt)], add_stake_signer self signers_list)))"

fun withdrawal_address :: "externals \<Rightarrow> stake_target \<Rightarrow> error + address option" where
  "withdrawal_address ext (TargetAddress a) = Inr (Some a)"
| "withdrawal_address ext (TargetWallet w) = stake_address w"
| "withdrawal_address ext (TargetStr s) = bind (address_from_primitive ext s) (\<lambda>a. Inr (Some a))"

text \<open>"Withdraw all" for one stake address, through the context of the transaction.\<close>

definition withdraw_all_amount ::
  "externals \<Rightarrow> chain_context \<Rightarrow> address option \<Rightarrow> error + amount" where
  "withdraw_all_amount ext tx_context stake_addr =
     (case tx_context of
        OtherChainContext n \<Rightarrow> Inl ValueError
      | BlockFrostChainContext n \<Rightarrow>
          bind (get_stake_info ext stake_addr (Some tx_context)) (\<lambda>info.
            case withdrawable_amount info of
              None \<Rightarrow> mk_Lovelace (Some (PInt 0))
            | Some v \<Rightarrow>
                if wa_truthy v
                then (case v of
                        WaInt i \<Rightarrow> mk_Lovelace (Some (PInt i))
                      | WaFloat q \<Rightarrow> mk_Lovelace (Some (PInt (py_trunc q)))
                      | WaStr s \<Rightarrow>
                          if isdigit ext s
                          then bind (int_of_str ext s) (\<lambda>i. mk_Lovelace (Some (PInt i)))
                          else mk_Lovelace (Some (PInt 0)))
                else mk_Lovelace (Some (PInt 0))))"

fun withdrawal_amount ::
  "externals \<Rightarrow> chain_context \<Rightarrow> address option \<Rightarrow> withdrawal_value \<Rightarrow> error + amount" where
  "withdrawal_amount ext tx_context sa (WithdrawAmount a) = Inr a"
| "withdrawal_amount ext tx_context sa (WithdrawBool b) = withdraw_all_amount ext tx_context sa"
| "withdrawal_amount ext tx_context sa WithdrawAll = withdraw_all_amount ext tx_context sa"
| "withdrawal_amount ext tx_context sa WithdrawOther = mk_Lovelace (Some (PInt 0))"

text \<open>
  The value stored: \<open>withdrawal_amount.as_lovelace().amount\<close> for a \<open>Lovelace\<close>,
  \<open>withdrawal_amount.lovelace\<close> otherwise.
\<close>

definition withdrawal_lovelace :: "amount \<Rightarrow> error + int" where
  "withdrawal_lovelace amt =
     (case cls amt of
        Lovelace \<Rightarrow> bind (as_lovelace amt) (\<lambda>l. Inr (lovelace l))
      | Ada \<Rightarrow> Inr (lovelace amt))"

fun withdraw_all_targets ::
  "externals \<Rightarrow> chain_context \<Rightarrow> (stake_target \<times> withdrawal_value) list \<Rightarrow> (bytes \<times> int) list
     \<Rightarrow> error + (bytes \<times> int) list" where
  "withdraw_all_targets ext tx_context [] withdraw = Inr withdraw"
| "withdraw_all_targets ext tx_context ((k, v) # kvs) withdraw =
     bind (withdrawal_address ext k) (\<lambda>sa.
     bind (withdrawal_amount ext tx_context sa v) (\<lambda>amt.
       case sa of
         None \<Rightarrow> Inl AttributeError
       | Some a \<Rightarrow>
           (case staking_part a of
              None \<Rightarrow> Inl ValueError
            | Some sp \<Rightarrow>
                bind (withdrawal_lovelace amt) (\<lambda>l.
                  withdraw_all_targets ext tx_context kvs
                    (dict_set withdraw (staking_to_primitive ext sp) l)))))"

fun resolve_withdrawals ::
  "externals \<Rightarrow> wallet \<Rightarrow> chain_context \<Rightarrow> withdrawals option \<Rightarrow> signer list
     \<Rightarrow> error + (bytes \<times> int) list \<times> signer list" where
  "resolve_withdrawals ext self tx_context None signers_list = Inr ([], signers_list)"
| "resolve_withdrawals ext self tx_context (Some (WithdrawalsBool b)) signers_list =
     (if b then withdraw_self ext self signers_list else Inr ([], signers_list))"
| "resolve_withdrawals ext self tx_context (Some (WithdrawalsDict d)) signers_list =
     bind (withdraw_all_targets ext tx_context d []) (\<lambda>w. Inr (w, signers_list))"

subsection \<open>Filling the builder\<close>

definition new_builder :: "chain_context \<Rightarrow> builder" where
  "new_builder tx_context =
     \<lparr>builder_context = tx_context, input_addresses = [], builder_inputs = [], ttl = None,
      mint = None, native_scripts = None, auxiliary_data = None, builder_outputs = [],
      certificates = None, builder_withdrawals = None\<rparr>"

text \<open>
  The loop over \<open>input_list\<close>: an address or a string and the address of a wallet go to
  \<open>add_input_address\<close>, a UTxO to \<open>add_input\<close>; anything else is passed over. The only
  failure is a wallet without address.
\<close>

fun add_inputs :: "builder \<Rightarrow> input_thing list \<Rightarrow> error + builder" where
  "add_inputs b [] = Inr b"
| "add_inputs b (InAddress a # xs) =
     add_inputs (b\<lparr>input_addresses := input_addresses b @ [AddressInput a]\<rparr>) xs"
| "add_inputs b (InStr s # xs) =
     add_inputs (b\<lparr>input_addresses := input_addresses b @ [StrInput s]\<rparr>) xs"
| "add_inputs b (InWallet w # xs) =
     (case w_address w of
        None \<Rightarrow> Inl ValueError
      | Some a \<Rightarrow> add_inputs (b\<lparr>input_addresses := input_addresses b @ [AddressInput a]\<rparr>) xs)"
| "add_inputs b (InUTxO u # xs) = add_inputs (b\<lparr>builder_inputs := builder_inputs b @ [u]\<rparr>) xs"
| "add_inputs b (InOther # xs) = add_inputs b xs"

text \<open>
  The property \<open>expiration_slot\<close> of a policy with the given script: the \<open>after\<close> of the
  last \<open>InvalidHereAfter\<close> (type 5) among \<open>script.native_scripts\<close>, \<open>TypeError\<close> without a
  script or without such a slot.
\<close>

fun sub_scripts :: "native_script \<Rightarrow> native_script list" where
  "sub_scripts (ScriptAll l) = l"
| "sub_scripts (ScriptAny l) = l"
| "sub_scripts (ScriptNofK n l) = l"
| "sub_scripts s = []"

fun last_after :: "native_script list \<Rightarrow> int option \<Rightarrow> int option" where
  "last_after [] found = found"
| "last_after (InvalidHereAfter n # ss) found = last_after ss (Some n)"
| "last_after (s # ss) found = last_after ss found"

definition expiration_slot :: "native_script option \<Rightarrow> error + int" where
  "expiration_slot scr =
     (case scr of
        None \<Rightarrow> Inl TypeError
      | Some s \<Rightarrow>
          (case last_after (sub_scripts s) None of
             None \<Rightarrow> Inl TypeError
           | Some e \<Rightarrow> if e = 0 then Inl TypeError else Inr e))"

text \<open>
  \<open>TokenPolicy("", policy).expiration_slot\<close>: the second positional field of
  \<open>TokenPolicy\<close> is \<open>policy_id\<close>, so the new policy has no script of its own and
  \<open>__post_init__\<close> looks for the file \<open>.script\<close> in the default policy directory.
\<close>

definition policy_expiration :: "externals \<Rightarrow> native_script option \<Rightarrow> error + int" where
  "policy_expiration ext pol = expiration_slot (policy_file ext)"

fun expirations :: "externals \<Rightarrow> native_script option list \<Rightarrow> error + int list" where
  "expirations ext [] = Inr []"
| "expirations ext (p # ps) =
     bind (policy_expiration ext p) (\<lambda>e. bind (expirations ext ps) (\<lambda>es. Inr (e # es)))"

fun py_min :: "int list \<Rightarrow> error + int" where
  "py_min [] = Inl ValueError"
| "py_min (x # xs) = Inr (fold min xs x)"

definition set_mint ::
  "externals \<Rightarrow> token list \<Rightarrow> native_script option list \<Rightarrow> multi_asset \<Rightarrow> builder
     \<Rightarrow> error + builder" where
  "set_mint ext mint_list scripts all_assets b =
     (if mint_list \<noteq> []
      then bind (expirations ext scripts) (\<lambda>es.
           bind (py_min es) (\<lambda>t.
             Inr (b\<lparr>ttl := Some t, mint := Some all_assets, native_scripts := Some scripts\<rparr>)))
      else Inr b)"

subsection \<open>Formatting the outputs\<close>

text \<open>The property \<open>policy_id\<close> of a token: a \<open>NativeScript\<close> has no such attribute.\<close>

definition token_policy_id :: "token \<Rightarrow> error + pystr option" where
  "token_policy_id t =
     (case tok_policy t of
        NativeScriptPolicy s \<Rightarrow> Inl AttributeError
      | TokenPolicy tp \<Rightarrow> Inr (policy_id tp))"

type_synonym output_policies = "(pystr option \<times> (pystr \<times> int) list) list"

text \<open>The tokens of one output, summed per policy and name.\<close>

fun sum_output_tokens :: "token list \<Rightarrow> output_policies \<Rightarrow> error + output_policies" where
  "sum_output_tokens [] d = Inr d"
| "sum_output_tokens (t # ts) d =
     bind (token_policy_id t) (\<lambda>pid.
       let d1 = (if inner d pid = [] then dict_set d pid [] else d);
           old = (case map_of (inner d1 pid) (tok_name t) of None \<Rightarrow> 0 | Some n \<Rightarrow> n)
       in sum_output_tokens ts
            (dict_set d1 pid
               (dict_set (inner d1 pid) (tok_name t)
                  (if old \<noteq> 0 then old + tok_amount t else tok_amount t))))"

fun names_asset :: "(pystr \<times> int) list \<Rightarrow> asset \<Rightarrow> asset" where
  "names_asset [] a = a"
| "names_asset ((n, q) # nqs) a = names_asset nqs (dict_set a (encode_utf8 n) q)"

fun output_multi_asset :: "externals \<Rightarrow> output_policies \<Rightarrow> multi_asset \<Rightarrow> error + multi_asset" where
  "output_multi_asset ext [] ma = Inr ma"
| "output_multi_asset ext ((pol, token_info) # ps) ma =
     bind (script_hash_from_primitive ext pol) (\<lambda>h.
       output_multi_asset ext ps (dict_set ma h (names_asset token_info [])))"

fun tokens_of :: "out_tokens \<Rightarrow> token list" where
  "tokens_of NoTokens = []"
| "tokens_of (TokenList ts) = ts"
| "tokens_of (OneToken t) = [t]"

text \<open>
  One round of the loop over \<open>output_list\<close>. When the amount is zero lovelace it is
  replaced by \<open>min_lovelace\<close> of an output that carries \<open>mint_multiasset\<close>.
\<close>

definition format_output ::
  "externals \<Rightarrow> chain_context \<Rightarrow> multi_asset \<Rightarrow> builder \<Rightarrow> py_output \<Rightarrow> error + builder" where
  "format_output ext tx_context mint_multiasset b out =
     bind (if tokens_of (out_tokens out) \<noteq> []
           then bind (sum_output_tokens (tokens_of (out_tokens out)) [])
                  (\<lambda>d. output_multi_asset ext d [])
           else Inr []) (\<lambda>ma.
     bind (case out_amount out of OAmount a \<Rightarrow> Inr a | ONum n \<Rightarrow> mk_Lovelace (Some n)) (\<lambda>amt.
     bind (case out_address out of
             OStr s \<Rightarrow> address_from_primitive ext s
           | OWallet w \<Rightarrow> full_address w
           | OAddress a \<Rightarrow> Inr a) (\<lambda>addr.
     bind (if lovelace amt = 0
           then mk_Lovelace (Some (PInt (min_lovelace ext tx_context
                  \<lparr>to_address = addr,
                   to_amount = \<lparr>coin = 1000000, multi_asset = mint_multiasset\<rparr>\<rparr>)))
           else Inr amt) (\<lambda>amt'.
       Inr (b\<lparr>builder_outputs := builder_outputs b @
              [\<lparr>to_address = addr,
                to_amount = \<lparr>coin = lovelace amt', multi_asset = ma\<rparr>\<rparr>]\<rparr>)))))"

fun format_outputs ::
  "externals \<Rightarrow> chain_context \<Rightarrow> multi_asset \<Rightarrow> py_output list \<Rightarrow> builder \<Rightarrow> error + builder" where
  "format_outputs ext tx_context mint_multiasset [] b = Inr b"
| "format_outputs ext tx_context mint_multiasset (out # outs) b =
     bind (format_output ext tx_context mint_multiasset b out)
       (format_outputs ext tx_context mint_multiasset outs)"

subsection \<open>Signing keys\<close>

fun signing_keys_of :: "signer list \<Rightarrow> key list \<Rightarrow> error + key list" where
  "signing_keys_of [] ks = Inr ks"
| "signing_keys_of (SignerWallet w # ss) ks =
     (case signing_key w of
        None \<Rightarrow> Inl ValueError
      | Some k \<Rightarrow> signing_keys_of ss (ks @ [k]))"
| "signing_keys_of (SignerKey k # ss) ks = signing_keys_of ss (ks @ [k])"
| "signing_keys_of (SignerNone # ss) ks = Inl ValueError"

definition resolve_signing_keys :: "wallet \<Rightarrow> signer list \<Rightarrow> error + key list" where
  "resolve_signing_keys self signers_list =
     (if signers_list \<noteq> []
      then bind (signing_keys_of signers_list []) (\<lambda>ks.
             case signing_key self of
               Some (SigningKey k) \<Rightarrow>
                 if SigningKey k \<notin> set ks then Inr (SigningKey k # ks) else Inr ks
             | Some (ExtendedSigningKey k) \<Rightarrow> Inr ks
             | None \<Rightarrow> Inr ks)
      else (case signing_key self of None \<Rightarrow> Inl ValueError | Some k \<Rightarrow> Inr [k]))"

subsection \<open>The method\<close>

text \<open>
  \<open>transact\<close> up to the call of the builder: \<open>Build\<close> for \<open>build_only\<close>, else
  \<open>BuildAndSign\<close> with the signing keys.
\<close>

definition transact :: "externals \<Rightarrow> wallet \<Rightarrow> transact_args \<Rightarrow> error + request" where
  "transact ext self args =
     bind (find_context self (context_arg args)) (\<lambda>tx_context.
     bind (output_change_address ext self (change_address args)) (\<lambda>change.
     bind (sort_mints ext (opt_list (mints args)) ([], [], [])) (\<lambda>st.
     bind (build_metadata ext (fst (snd st)) (message args) (other_metadata args)) (\<lambda>all_metadata.
     bind (add_registrations ext self (stake_registration_info (stake_registration args)) []
             (opt_list (signers args))) (\<lambda>r1.
     bind (add_delegations ext self (delegations args) (fst r1) (snd r1)) (\<lambda>r2.
     bind (resolve_withdrawals ext self tx_context (withdrawals args) (snd r2)) (\<lambda>r3.
     bind (add_inputs (new_builder tx_context) (as_list (inputs args))) (\<lambda>b1.
     bind (set_mint ext (opt_list (mints args)) (snd (snd st))
             (snd (build_assets (fst st) ([], []))) b1) (\<lambda>b2.
     bind (format_outputs ext tx_context (fst (build_assets (fst st) ([], [])))
             (opt_list (outputs args))
             (if all_metadata \<noteq> [] then b2\<lparr>auxiliary_data := Some all_metadata\<rparr> else b2)) (\<lambda>b3.
       let b4 = (if fst r2 \<noteq> [] then b3\<lparr>certificates := Some (fst r2)\<rparr> else b3);
           b5 = (if fst r3 \<noteq> [] then b4\<lparr>builder_withdrawals := Some (fst r3)\<rparr> else b4)
       in if build_only args then Inr (Build b5 change (merge_change args))
          else bind (resolve_signing_keys self (snd r3)) (\<lambda>keys.
                 Inr (BuildAndSign b5 keys change (merge_change args)))))))))))))"

section \<open>delegate and burn_tokens\<close>

text \<open>
  The keyword arguments a wrapper passes on to \<open>transact\<close> are a \<open>transact_args\<close> whose
  fields the wrapper sets itself are overwritten.
\<close>

fun utxo_inputs :: "wallet \<Rightarrow> utxo one_or_many option \<Rightarrow> input_thing one_or_many" where
  "utxo_inputs self None = Many [InWallet self]"
| "utxo_inputs self (Some (One u)) = Many [InUTxO u]"
| "utxo_inputs self (Some (Many us)) = (if us = [] then Many [InWallet self] else Many (map InUTxO us))"

definition delegate ::
  "externals \<Rightarrow> wallet \<Rightarrow> pool \<Rightarrow> bool \<Rightarrow> amount \<Rightarrow> utxo one_or_many option \<Rightarrow> transact_args
     \<Rightarrow> error + request" where
  "delegate ext self pool_hash register amt utxos kwargs =
     bind (stake_address self) (\<lambda>sa.
       if sa = None then Inl ValueError
       else bind (get_stake_info ext sa (w_context self)) (\<lambda>info.
         if \<not> register \<and> \<not> active info then Inl ValueError
         else (case w_address self of
                 None \<Rightarrow> Inl AttributeError
               | Some a \<Rightarrow>
                   transact ext self
                     (kwargs\<lparr>inputs := utxo_inputs self utxos,
                             outputs := Some (One \<lparr>out_address = OAddress a,
                                                   out_amount = OAmount amt,
                                                   out_tokens = NoTokens\<rparr>),
                             stake_registration :=
                               Some (RegBool (if register then \<not> active info else False)),
                             delegations :=
                               Some (case pool_hash of
                                       PoolStr s \<Rightarrow> DelegateStr s
                                     | PoolHash h \<Rightarrow> DelegatePool h)\<rparr>))))"

text \<open>
  \<open>burn_tokens\<close> works on the caller's \<open>Token\<close> objects: the heap maps a reference to the
  object it names, and the method returns the heap it leaves with what \<open>transact\<close>
  returns. The amount to attach is an optional value that may or may not be an Amount.
\<close>

type_synonym heap = "nat \<Rightarrow> token"

datatype address_or_str = AnAddress address | AStr pystr

fun amount_truthy :: "out_amount option \<Rightarrow> bool" where
  "amount_truthy None = False"
| "amount_truthy (Some (OAmount a)) = py_nonzero (raw a)"
| "amount_truthy (Some (ONum n)) = py_nonzero n"

fun is_amount :: "out_amount option \<Rightarrow> bool" where
  "is_amount (Some (OAmount a)) = True"
| "is_amount x = False"

text \<open>\<open>for token in tokens: token.amount = -abs(token.amount)\<close>.\<close>

fun negate_all :: "nat list \<Rightarrow> heap \<Rightarrow> heap" where
  "negate_all [] h = h"
| "negate_all (r # rs) h = negate_all rs (h(r := (h r)\<lparr>tok_amount := - \<bar>tok_amount (h r)\<bar>\<rparr>))"

definition burn_tokens ::
  "externals \<Rightarrow> wallet \<Rightarrow> heap \<Rightarrow> nat one_or_many \<Rightarrow> address_or_str \<Rightarrow> out_amount option
     \<Rightarrow> utxo one_or_many option \<Rightarrow> transact_args \<Rightarrow> heap \<times> (error + request)" where
  "burn_tokens ext self h tokens change amt utxos kwargs =
     (if amount_truthy amt \<and> \<not> is_amount amt then (h, Inl TypeError)
      else case (if \<not> amount_truthy amt then mk_Ada (Some (PInt 1))
                 else (case amt of Some (OAmount a) \<Rightarrow> Inr a | _ \<Rightarrow> Inl TypeError)) of
             Inl e \<Rightarrow> (h, Inl e)
           | Inr attach_amount \<Rightarrow>
               (let h' = negate_all (as_list tokens) h;
                    toks = map h' (as_list tokens)
                in (h',
                    bind (case change of
                            AStr s \<Rightarrow> address_from_primitive ext s
                          | AnAddress a \<Rightarrow> Inr a) (\<lambda>a.
                      transact ext self
                        (kwargs\<lparr>inputs := utxo_inputs self utxos,
                                outputs := Some (One \<lparr>out_address = OAddress a,
                                                      out_amount = OAmount attach_amount,
                                                      out_tokens = TokenList toks\<rparr>),
                                mints := Some (Many toks)\<rparr>)))))"

section \<open>A sample world\<close>

text \<open>
  Concrete collaborators and objects, for evaluating the model. \<open>encode_address\<close> is the
  library's \<open>Address.to_primitive()\<close>: a header byte (address type and network) followed
  by the payment hash and the staking hash. Hashes of scripts and parsed strings are toy
  functions; the minimum lovelace of an output grows with the number of policies in its
  multi-asset. \<open>Metadata_validate\<close> is the validation of the library's \<open>Metadata\<close>: the
  keys of the dictionary are integers, and below them a string (a value, or the key of an
  inner dictionary) has at most 64 bytes of UTF-8 and \<open>None\<close> is not a value.
\<close>

fun validate_type_and_size :: "meta \<Rightarrow> bool" where
  "validate_type_and_size (MDict kvs) =
     list_all (\<lambda>kv. (case fst kv of KStr s \<Rightarrow> length (encode_utf8 s) \<le> 64 | KInt i \<Rightarrow> True)
                       \<and> validate_type_and_size (snd kv)) kvs"
| "validate_type_and_size (MList xs) = list_all validate_type_and_size xs"
| "validate_type_and_size (MStr s) = (length (encode_utf8 s) \<le> 64)"
| "validate_type_and_size (MInt i) = True"
| "validate_type_and_size (MBool b) = True"
| "validate_type_and_size MNone = False"

definition Metadata_validate :: "(mkey \<times> meta) list \<Rightarrow> bool" where
  "Metadata_validate d =
     list_all (\<lambda>kv. (case fst kv of KStr s \<Rightarrow> False | KInt i \<Rightarrow> True)
                       \<and> validate_type_and_size (snd kv)) d"

definition encode_address :: "address \<Rightarrow> bytes" where
  "encode_address a =
     ((case (payment_part a, staking_part a) of
         (None, Some (ScriptHash h)) \<Rightarrow> 240
       | (None, _) \<Rightarrow> 224
       | (Some p, None) \<Rightarrow> 96
       | (Some p, Some (KeyHash h)) \<Rightarrow> 0
       | (Some p, Some (ScriptHash h)) \<Rightarrow> 32
       | (Some p, Some PointerAddress) \<Rightarrow> 64)
      + (case network a of MAINNET \<Rightarrow> 1 | TESTNET \<Rightarrow> 0))
     # (case payment_part a of None \<Rightarrow> [] | Some p \<Rightarrow> p)
     @ (case staking_part a of Some (KeyHash h) \<Rightarrow> h | Some (ScriptHash h) \<Rightarrow> h | _ \<Rightarrow> [])"

definition world :: externals where
  "world =
     \<lparr>printable = (\<lambda>c. True),
      address_from_primitive = (\<lambda>s. Inl ValueError),
      address_to_primitive = encode_address,
      staking_to_primitive =
        (\<lambda>s. case s of KeyHash h \<Rightarrow> h | ScriptHash h \<Rightarrow> h | PointerAddress \<Rightarrow> []),
      native_script_hash = (\<lambda>s. [0]),
      script_hash_from_primitive = (\<lambda>p. case p of None \<Rightarrow> Inl TypeError | Some s \<Rightarrow> Inr s),
      script_hash_str = (\<lambda>h. h),
      bytes_fromhex = (\<lambda>s. Inr s),
      int_of_str = (\<lambda>s. Inl ValueError),
      isdigit = (\<lambda>s. False),
      policy_file = None,
      accounts = (\<lambda>c a. Some \<lparr>active = False, withdrawable_amount = Some (WaInt 5000)\<rparr>),
      min_lovelace = (\<lambda>c out. 1000000 + 100000 * int (length (multi_asset (to_amount out)))),
      metadata_valid = Metadata_validate\<rparr>"

text \<open>The same world with a policy script in the file \<open>.script\<close>, expiring at slot 1000.\<close>

definition world_with_file :: externals where
  "world_with_file =
     world\<lparr>policy_file := Some (ScriptAll [ScriptPubkey [1], InvalidHereAfter 1000])\<rparr>"

text \<open>A wallet with payment and stake keys, not yet registered in \<open>world\<close>.\<close>

definition alice :: wallet where
  "alice =
     \<lparr>w_address = Some \<lparr>payment_part = Some [1], staking_part = Some (KeyHash [2]),
                         network = MAINNET\<rparr>,
      w_network = MAINNET,
      signing_key = Some (SigningKey [3]),
      stake_signing_key = Some (SigningKey [4]),
      stake_verification_key_hash = Some [2],
      w_context = Some (BlockFrostChainContext 0)\<rparr>"

definition bob :: address where
  "bob = \<lparr>payment_part = Some [9], staking_part = None, network = MAINNET\<rparr>"

text \<open>The defaults of the keyword arguments of \<open>transact\<close>, with no inputs.\<close>

definition no_args :: transact_args where
  "no_args =
     \<lparr>inputs = Many [], outputs = None, mints = None, signers = None,
      stake_registration = None, delegations = None, withdrawals = None,
      change_address = None, merge_change = True, message = None, other_metadata = None,
      build_only = False, submit = True, await_confirmation = False, context_arg = None\<rparr>"

text \<open>The token "abc" of a policy with identifier \<open>[7]\<close>, in a given quantity.\<close>

definition abc :: "int \<Rightarrow> token" where
  "abc n =
     \<lparr>tok_policy = TokenPolicy
        \<lparr>policy_name = [112], policy_id = Some [7],
         script = Some (ScriptAll [ScriptPubkey [1], InvalidHereAfter 1000])\<rparr>,
      tok_amount = n, tok_name = [97, 98, 99], tok_metadata = MDict []\<rparr>"

text \<open>\<open>Lovelace(n)\<close> for an \<open>n\<close> that is a multiple of a million below \<open>2 ^ 53\<close> million.\<close>

definition whole_lovelace :: "int \<Rightarrow> amount" where
  "whole_lovelace n =
     \<lparr>cls = Lovelace, raw = PInt n, lovelace = n, ada = PFloat (of_int (n div 1000000))\<rparr>"




definition request_builder :: "request \<Rightarrow> builder" where
  "request_builder r = (case r of Build b c m \<Rightarrow> b | BuildAndSign b ks c m \<Rightarrow> b)"

definition request_keys :: "request \<Rightarrow> key list" where
  "request_keys r = (case r of Build b c m \<Rightarrow> [] | BuildAndSign b ks c m \<Rightarrow> ks)"

text \<open>The inputs the loop over \<open>input_list\<close> passes over, and those it fails on.\<close>

fun unusable :: "input_thing \<Rightarrow> bool" where
  "unusable InOther = True"
| "unusable x = False"

fun no_address :: "input_thing \<Rightarrow> bool" where
  "no_address (InWallet w) = (w_address w = None)"
| "no_address x = False"








section \<open>Evaluation\<close>

text \<open>The overflow test by the bit length of the integer part, for evaluation.\<close>

lemma overflows_code [code]: "overflows r = (1024 < bitlen \<lfloor>\<bar>r\<bar>\<rfloor>)"
proof -
  have "(2 ^ 1024 \<le> \<bar>r\<bar>) = ((2::int) ^ 1024 \<le> \<lfloor>\<bar>r\<bar>\<rfloor>)"
    by (simp add: le_floor_iff)
  also have "\<dots> = (\<not> bitlen \<lfloor>\<bar>r\<bar>\<rfloor> \<le> 1024)"
    by (simp add: bitlen_le_iff_power not_less)
  finally show ?thesis by (simp add: overflows_def not_le)
qed

section \<open>Properties of format_message\<close>









section \<open>Properties of the metadata validators\<close>
















text \<open>
  An integer item in a list stops \<open>Token._check_metadata\<close> with \<open>TypeError\<close> before it
  reaches a long string behind it; \<open>check_metadata\<close> rejects the same value as too long.
\<close>

lemma Token_check_metadata_int_item:
  "Token_check_metadata (\<lambda>c. True)
     (MDict [(KStr [107], MList [MInt 5, MStr (replicate 65 120)])]) True = Inl TypeError
   \<and> check_metadata (\<lambda>c. True)
     (MDict [(KStr [107], MList [MInt 5, MStr (replicate 65 120)])]) True
       = Inl (MetadataFormattingException FieldTooLong)"
  by code_simp

section \<open>Properties of transact\<close>


lemma dict_set_overwrite: "dict_set (dict_set d k a) k b = dict_set d k b"
  by (induction d) auto

lemma whole_lovelace_0: "mk_Lovelace (Some (PInt 0)) = Inr (whole_lovelace 0)"
  by code_simp

lemma whole_lovelace_2000000: "mk_Lovelace (Some (PInt 2000000)) = Inr (whole_lovelace 2000000)"
  by code_simp

text \<open>
  C1. Two tokens of one policy and name in one mint list, with amounts 1 and 2: the mint
  value handed to the builder has the single entry 2, the amount of the later token, not
  the sum 3 (the loop stores the token by assignment). This is in a world where the policy
  file exists; in the plain world the same call stops with \<open>TypeError\<close> at the computation
  of the builder's \<open>ttl\<close>.
\<close>

theorem transact_mints_same_name:
  "map_sum id (\<lambda>r. mint (request_builder r))
     (transact world_with_file alice
        (no_args\<lparr>mints := Some (Many [abc 1, abc 2]), build_only := True\<rparr>))
   = Inr (Some [([7], [([97, 98, 99], 2)])])"
  by code_simp

lemma transact_mints_without_policy_file:
  "transact world alice (no_args\<lparr>mints := Some (Many [abc 1, abc 2]), build_only := True\<rparr>)
   = Inl TypeError"
  by code_simp




text \<open>
  C3. \<open>delegate\<close> with a pool identifier string and \<open>register=True\<close>, for a wallet whose
  stake account is not active: \<open>transact\<close> receives \<open>stake_registration=True\<close>, which
  \<open>stake_registration_info\<close> turns into the empty list, so the certificates are the one
  delegation, with no registration before it. The stake signing key is among the signing
  keys once.
\<close>

theorem delegate_unregistered:
  "map_sum id (\<lambda>r. (certificates (request_builder r), request_keys r))
     (delegate world alice (PoolStr [5, 5]) True (whole_lovelace 2000000) None no_args)
   = Inr (Some [StakeDelegation (StakeCredential (KeyHash [2])) [5, 5]],
          [SigningKey [3], SigningKey [4]])"
  by code_simp

lemma stake_registration_bool: "stake_registration_info (Some (RegBool b)) = InfoList []"
  by simp

lemma add_registrations_bool:
  "add_registrations ext self (stake_registration_info (Some (RegBool b))) certs signers_list
   = Inr (certs, signers_list)"
  by simp

text \<open>
  C4 (as amended). Inputs that resolve to nothing usable (an empty list, or entries that
  are no address, string, wallet or UTxO) raise no error: the builder is left as it was,
  with no inputs, and composition goes on. The only error of input resolution is
  \<open>ValueError\<close>, for a wallet without address.
\<close>

theorem add_inputs_unusable:
  "(list_all unusable xs \<longrightarrow> add_inputs b xs = Inr b)
   \<and> (add_inputs b xs = Inl e \<longrightarrow> e = ValueError \<and> list_ex no_address xs)"
proof
  show "list_all unusable xs \<longrightarrow> add_inputs b xs = Inr b"
    by (induction b xs rule: add_inputs.induct) simp_all
next
  show "add_inputs b xs = Inl e \<longrightarrow> e = ValueError \<and> list_ex no_address xs"
    by (induction b xs rule: add_inputs.induct) (auto split: option.splits)
qed

theorem add_inputs_unusable_witness:
  "add_inputs (new_builder (BlockFrostChainContext 0)) [InOther, InOther]
     = Inr (new_builder (BlockFrostChainContext 0))
   \<and> add_inputs (new_builder (BlockFrostChainContext 0)) [InWallet (alice\<lparr>w_address := None\<rparr>)]
     = Inl ValueError"
proof
  show "add_inputs (new_builder (BlockFrostChainContext 0)) [InOther, InOther]
     = Inr (new_builder (BlockFrostChainContext 0))"
    using add_inputs_unusable [of "[InOther, InOther]" "new_builder (BlockFrostChainContext 0)"]
    by simp
next
  have "\<exists>e. add_inputs (new_builder (BlockFrostChainContext 0))
               [InWallet (alice\<lparr>w_address := None\<rparr>)] = Inl e"
    by simp
  then show "add_inputs (new_builder (BlockFrostChainContext 0))
               [InWallet (alice\<lparr>w_address := None\<rparr>)] = Inl ValueError"
    using add_inputs_unusable [of "[InWallet (alice\<lparr>w_address := None\<rparr>)]"
        "new_builder (BlockFrostChainContext 0)"]
    by auto
qed

text \<open>
  The claim as stated has such a call fail and hand nothing to the builder. With no
  inputs at all, \<open>transact\<close> fails nowhere and calls \<open>build\<close> on a builder that holds the
  output and no input.
\<close>

theorem transact_no_inputs_counterexample:
  "map_sum id
     (\<lambda>r. (input_addresses (request_builder r), builder_inputs (request_builder r),
           builder_outputs (request_builder r)))
     (transact world alice
        (no_args\<lparr>inputs := Many [],
                 outputs := Some (One \<lparr>out_address = OAddress bob,
                                       out_amount = OAmount (whole_lovelace 2000000),
                                       out_tokens = NoTokens\<rparr>),
                 build_only := True\<rparr>))
   = Inr ([], [],
          [\<lparr>to_address = bob, to_amount = \<lparr>coin = 2000000, multi_asset = []\<rparr>\<rparr>])"
  by code_simp

text \<open>
  C5. \<open>withdrawals=True\<close>: the withdrawal map handed to the builder has the encoded
  stake address of the caller as its key (header byte 225, then the hash), while the raw
  bytes of the staking key hash are \<open>[2]\<close>. The explicit mapping for the same wallet has
  the raw hash as its key.
\<close>

theorem transact_withdraw_true:
  "map_sum id (\<lambda>r. builder_withdrawals (request_builder r))
     (transact world alice
        (no_args\<lparr>inputs := Many [InWallet alice], withdrawals := Some (WithdrawalsBool True)\<rparr>))
   = Inr (Some [([225, 2], 5000)])
   \<and> staking_to_primitive world (KeyHash [2]) = [2]"
  by code_simp

lemma transact_withdraw_mapping:
  "map_sum id (\<lambda>r. builder_withdrawals (request_builder r))
     (transact world alice
        (no_args\<lparr>inputs := Many [InWallet alice],
                 withdrawals := Some (WithdrawalsDict [(TargetWallet alice, WithdrawAll)])\<rparr>))
   = Inr (Some [([2], 5000)])"
  by code_simp

section \<open>Properties of burn_tokens\<close>











lemma burn_tokens_mint_value:
  "map_sum id (\<lambda>r. mint (request_builder r))
     (snd (burn_tokens world_with_file alice (\<lambda>r. abc (int r)) (Many [3])
             (AnAddress bob) None None (no_args\<lparr>build_only := True\<rparr>)))
   = Inr (Some [([7], [([97, 98, 99], - 3)])])"
  by code_simp

section \<open>Properties of Amount\<close>


















lemma ada_arithmetic_examples:
  "bind (mk_Ada (Some (PFloat (3 / 2)))) (\<lambda>a. amount_binop Mul a (Num (PInt 2)))
     = Inr \<lparr>cls = Ada, raw = PFloat 3, lovelace = 3000000, ada = PFloat 3\<rparr>
   \<and> bind (mk_Ada (Some (PInt 7))) (\<lambda>a. amount_binop TrueDiv a (Num (PInt 2)))
     = Inr \<lparr>cls = Ada, raw = PFloat (7 / 2), lovelace = 3500000, ada = PFloat (7 / 2)\<rparr>"
  by code_simp

section \<open>Properties of the conversion between Lovelace and Ada\<close>

text \<open>
  The rounding \<open>fl\<close> is exact on integers below \<open>2 ^ 53\<close> and has relative error at most
  \<open>2 ^ -53\<close> on the normal range.
\<close>

lemma rne_bound: "\<bar>of_int (rne x) - x\<bar> \<le> 1 / 2"
proof -
  have "of_int \<lfloor>x\<rfloor> \<le> x" and "x < of_int \<lfloor>x\<rfloor> + 1"
    by linarith+
  then show ?thesis
    by (auto simp: rne_def Let_def)
qed

lemma rne_of_int: "rne (of_int n) = n"
  by (simp add: rne_def)

lemma pow2_int_bounds:
  assumes "0 < (a::int)"
  shows "(2::rat) powi (bitlen a - 1) \<le> of_int a" and "of_int a < (2::rat) powi (bitlen a)"
proof -
  from assms have b1: "1 \<le> bitlen a"
    by (simp add: bitlen_alt_def)
  from bitlen_bounds [OF assms] have l: "2 ^ nat (bitlen a - 1) \<le> a" and u: "a < 2 ^ nat (bitlen a)"
    by simp_all
  have "(2::rat) powi (bitlen a - 1) = 2 ^ nat (bitlen a - 1)"
    using b1 by (simp add: power_int_def)
  also have "\<dots> = of_int (2 ^ nat (bitlen a - 1))"
    by simp
  also have "\<dots> \<le> of_int a"
    using l by (simp only: of_int_le_iff)
  finally show "(2::rat) powi (bitlen a - 1) \<le> of_int a" .
  have "(of_int a :: rat) < of_int (2 ^ nat (bitlen a))"
    using u by (simp only: of_int_less_iff)
  also have "\<dots> = 2 ^ nat (bitlen a)"
    by simp
  also have "\<dots> = (2::rat) powi (bitlen a)"
    using b1 by (simp add: power_int_def)
  finally show "of_int a < (2::rat) powi (bitlen a)" .
qed

lemma ilog2_bounds:
  assumes "0 < q"
  shows "2 powi (ilog2 q) \<le> q" and "q < 2 powi (ilog2 q + 1)"
proof -
  obtain a b where ab: "quotient_of q = (a, b)"
    by (cases "quotient_of q")
  then have b: "0 < b" and q: "q = of_int a / of_int b"
    by (auto dest: quotient_of_denom_pos quotient_of_div)
  from assms q b have a: "0 < a"
    by (simp add: zero_less_divide_iff)
  let ?la = "bitlen a" and ?lb = "bitlen b"
  note A = pow2_int_bounds [OF a] and B = pow2_int_bounds [OF b]
  have bpos: "(0::rat) < of_int b" using b by simp
  have lo: "2 powi (?la - ?lb - 1) < q"
  proof -
    have "(2::rat) powi (?la - ?lb - 1) * of_int b < 2 powi (?la - ?lb - 1) * 2 powi ?lb"
      using B(2) by (simp add: mult_strict_left_mono)
    also have "\<dots> = 2 powi (?la - 1)"
      by (simp add: power_int_add [symmetric])
    also have "\<dots> \<le> of_int a" by (rule A(1))
    finally show ?thesis
      using bpos by (simp add: q pos_less_divide_eq)
  qed
  have hi: "q < 2 powi (?la - ?lb + 1)"
  proof -
    have "(of_int a :: rat) < 2 powi ?la" by (rule A(2))
    also have "\<dots> = 2 powi (?la - ?lb + 1) * 2 powi (?lb - 1)"
      by (simp add: power_int_add [symmetric])
    also have "\<dots> \<le> 2 powi (?la - ?lb + 1) * of_int b"
      using B(1) by (simp add: mult_left_mono)
    finally show ?thesis
      using bpos by (simp add: q pos_divide_less_eq)
  qed
  have e: "ilog2 q = (if 2 powi (?la - ?lb) \<le> q then ?la - ?lb else ?la - ?lb - 1)"
    by (simp add: ilog2_def ab Let_def)
  show "2 powi (ilog2 q) \<le> q"
    using lo by (simp add: e)
  show "q < 2 powi (ilog2 q + 1)"
    using hi by (simp add: e not_le)
qed

lemma ilog2_unique:
  assumes "0 < q" "2 powi e \<le> q" "q < 2 powi (e + 1)"
  shows "ilog2 q = e"
proof -
  note B = ilog2_bounds [OF assms(1)]
  have "(2::rat) powi e < 2 powi (ilog2 q + 1)"
    using assms(2) B(2) by linarith
  then have 1: "e < ilog2 q + 1"
    by (metis linorder_not_less one_less_numeral_iff power_int_increasing semiring_norm(76) less_imp_le)
  have "(2::rat) powi (ilog2 q) < 2 powi (e + 1)"
    using assms(3) B(1) by linarith
  then have 2: "ilog2 q < e + 1"
    by (metis linorder_not_less one_less_numeral_iff power_int_increasing semiring_norm(76) less_imp_le)
  from 1 2 show ?thesis by linarith
qed


lemma pow2_exp_less:
  assumes "(2::rat) powi a < 2 powi b"
  shows "a < b"
proof (rule ccontr)
  assume "\<not> a < b"
  then have "b \<le> a" by simp
  then have "(2::rat) powi b \<le> 2 powi a"
    by (rule power_int_increasing) simp
  with assms show False by simp
qed

lemma fl_normal:
  assumes "q \<noteq> 0" and "2 powi (- 1022) \<le> \<bar>q\<bar>"
  shows "fl q = of_int (rne (q / 2 powi (ilog2 \<bar>q\<bar> - 52))) * 2 powi (ilog2 \<bar>q\<bar> - 52)"
proof -
  from assms(1) have pos: "0 < \<bar>q\<bar>" by simp
  note B = ilog2_bounds [OF pos]
  have "(2::rat) powi (- 1022) < 2 powi (ilog2 \<bar>q\<bar> + 1)"
    using assms(2) B(2) by linarith
  then have "- 1022 < ilog2 \<bar>q\<bar> + 1"
    by (rule pow2_exp_less)
  then have "max (ilog2 \<bar>q\<bar>) (- 1022) = ilog2 \<bar>q\<bar>"
    by simp
  with assms(1) show ?thesis
    by (simp add: fl_def Let_def)
qed

lemma fl_error:
  assumes "q \<noteq> 0" and "2 powi (- 1022) \<le> \<bar>q\<bar>"
  shows "\<bar>fl q - q\<bar> \<le> \<bar>q\<bar> / 2 ^ 53"
proof -
  from assms(1) have pos: "0 < \<bar>q\<bar>" by simp
  note B = ilog2_bounds [OF pos]
  define e where "e = ilog2 \<bar>q\<bar>"
  define u :: rat where "u = 2 powi (e - 52)"
  have u: "0 < u" by (simp add: u_def)
  have f: "fl q = of_int (rne (q / u)) * u"
    using fl_normal [OF assms] by (simp add: u_def e_def)
  have "fl q - q = (of_int (rne (q / u)) - q / u) * u"
    using u by (simp add: f algebra_simps)
  then have "\<bar>fl q - q\<bar> = \<bar>of_int (rne (q / u)) - q / u\<bar> * u"
    using u by (simp add: abs_mult)
  also have "\<dots> \<le> 1 / 2 * u"
    using rne_bound [of "q / u"] u by (intro mult_right_mono) simp_all
  also have "1 / 2 * u = 2 powi e / 2 ^ 53"
  proof -
    have "(2::rat) powi (e - 52 + 52) = 2 powi (e - 52) * 2 powi 52"
      by (rule power_int_add) simp
    then have "(2::rat) powi e = 2 powi (e - 52) * 2 ^ 52"
      by simp
    then show ?thesis by (simp add: u_def)
  qed
  also have "\<dots> \<le> \<bar>q\<bar> / 2 ^ 53"
    using B(1) by (simp add: e_def divide_right_mono)
  finally show ?thesis .
qed

lemma fl_of_int:
  assumes "n \<noteq> 0" and "\<bar>n\<bar> < 2 ^ 53"
  shows "fl (of_int n) = of_int n"
proof -
  let ?q = "of_int n :: rat"
  have q0: "?q \<noteq> 0" using assms(1) by simp
  have pos: "0 < \<bar>?q\<bar>" using assms(1) by simp
  have one: "1 \<le> \<bar>?q\<bar>"
  proof -
    from assms(1) have "1 \<le> \<bar>n\<bar>" by simp
    then have "(of_int 1 :: rat) \<le> of_int \<bar>n\<bar>" by (simp only: of_int_le_iff)
    then show ?thesis by simp
  qed
  have big: "\<bar>?q\<bar> < 2 ^ 53"
  proof -
    from assms(2) have "(of_int \<bar>n\<bar> :: rat) < of_int (2 ^ 53)" by (simp only: of_int_less_iff)
    then show ?thesis by simp
  qed
  note B = ilog2_bounds [OF pos]
  define e where "e = ilog2 \<bar>?q\<bar>"
  have "(2::rat) powi e < 2 powi 53"
    using B(1) big by (simp add: e_def)
  then have e53: "e < 53" by (rule pow2_exp_less)
  have "(2::rat) powi 0 < 2 powi (e + 1)"
    using B(2) one by (simp add: e_def)
  then have e0: "0 < e + 1" by (rule pow2_exp_less)
  have small: "(2::rat) powi (- 1022) \<le> \<bar>?q\<bar>"
  proof -
    have "(2::rat) powi (- 1022) \<le> 2 powi 0"
      by (rule power_int_increasing) simp_all
    with one show ?thesis by simp
  qed
  define k where "k = nat (52 - e)"
  have u: "(2::rat) powi (e - 52) = 1 / 2 ^ k"
  proof -
    have "e - 52 = - int k" using e53 by (simp add: k_def)
    then show ?thesis by (simp add: power_int_minus divide_inverse)
  qed
  have "?q / (1 / 2 ^ k) = of_int (n * 2 ^ k)"
    by simp
  then have "rne (?q / (1 / 2 ^ k)) = n * 2 ^ k"
    by (simp only: rne_of_int)
  then have "fl ?q = of_int (n * 2 ^ k) * (1 / 2 ^ k)"
    using fl_normal [OF q0 small] by (simp only: e_def [symmetric] u)
  then show ?thesis by simp
qed

lemma fl_0: "fl 0 = 0"
  by (simp add: fl_def)


lemma fl_million: "fl 1000000 = 1000000"
  using fl_of_int [of 1000000] by simp

lemma not_overflows_small: "\<bar>r\<bar> < 2 ^ 54 \<Longrightarrow> \<not> overflows r"
proof -
  assume "\<bar>r\<bar> < 2 ^ 54"
  moreover have "(2::rat) ^ 54 < 2 ^ 1024"
    by (rule power_strict_increasing) simp_all
  ultimately show ?thesis unfolding overflows_def by linarith
qed

lemma tiny: "(2::rat) powi (- 1022) \<le> 1 / 2097152"
proof -
  have "(2::rat) powi (- 1022) \<le> 2 powi (- 21)"
    by (rule power_int_increasing) simp_all
  also have "(2::rat) powi (- 21) = inverse (2 powi 21)"
    by (rule power_int_minus)
  also have "(2::rat) powi 21 = 2 ^ 21"
    by (rule power_int_numeral)
  also have "inverse ((2::rat) ^ 21) = 1 / 2097152"
    by (simp add: inverse_eq_divide)
  finally show ?thesis .
qed

lemma fl_bound:
  assumes "q \<noteq> 0" and "2 powi (- 1022) \<le> \<bar>q\<bar>"
  shows "\<bar>fl q\<bar> \<le> 2 * \<bar>q\<bar>"
proof -
  have "\<bar>q\<bar> / 2 ^ 53 \<le> \<bar>q\<bar>"
    by (simp add: divide_le_eq mult_le_cancel_left1)
  with fl_error [OF assms] show ?thesis by linarith
qed

lemma int_truediv_million:
  assumes "0 \<le> n" and "n < 2 ^ 53"
  shows "int_truediv n 1000000 = Inr (fl (of_int n / 1000000))"
proof (cases "n = 0")
  case True
  then show ?thesis by (simp add: int_truediv_def fl_0 overflows_def)
next
  case False
  with assms(1) have n: "1 \<le> n" by simp
  let ?q = "of_int n / 1000000 :: rat"
  have "(1::rat) \<le> of_int n" using n by simp
  then have lo: "1 / 2097152 \<le> ?q" by simp
  then have q0: "?q \<noteq> 0" and qa: "\<bar>?q\<bar> = ?q" by simp_all
  have small: "2 powi (- 1022) \<le> \<bar>?q\<bar>"
    using tiny lo unfolding qa by linarith
  have "(of_int n :: rat) < of_int (2 ^ 53)"
    using assms(2) by (simp only: of_int_less_iff)
  then have "?q < 2 ^ 53" by simp
  with fl_bound [OF q0 small] have "\<bar>fl ?q\<bar> < 2 ^ 54"
    unfolding qa by simp
  then have "\<not> overflows (fl ?q)" by (rule not_overflows_small)
  then show ?thesis by (simp add: int_truediv_def)
qed

lemma round_trip_eq:
  assumes "0 \<le> v" and "v < 2 ^ 53"
    and "\<bar>fl (fl (of_int v / 1000000) * 1000000)\<bar> < 2 ^ 54"
    and "0 \<le> py_trunc (fl (fl (of_int v / 1000000) * 1000000))"
    and "py_trunc (fl (fl (of_int v / 1000000) * 1000000)) < 2 ^ 53"
  shows "round_trip v = Inr (py_trunc (fl (fl (of_int v / 1000000) * 1000000)))"
  using int_truediv_million [OF assms(1,2)] int_truediv_million [OF assms(4,5)]
    not_overflows_small [OF assms(3)]
  by (simp add: round_trip_def as_ada_def as_lovelace_def to_float_def fl_million overflows_def)


lemma round_trip_float:
  assumes "1 \<le> v" and "v < 2 ^ 52"
  shows "of_int v - 1 < fl (fl (of_int v / 1000000) * 1000000)"
    and "fl (fl (of_int v / 1000000) * 1000000) < of_int v + 1"
proof -
  let ?V = "of_int v :: rat"
  let ?q = "?V / 1000000"
  define z where "z = fl ?q * 1000000"
  have V1: "1 \<le> ?V" using assms(1) by simp
  from assms(2) have "v \<le> 2 ^ 52 - 1" by simp
  then have "?V \<le> of_int (2 ^ 52 - 1)" by (simp only: of_int_le_iff)
  then have V2: "?V \<le> 4503599627370495" by simp
  from V1 have lo: "1 / 2097152 \<le> ?q" by simp
  then have q0: "?q \<noteq> 0" and qa: "\<bar>?q\<bar> = ?q" by simp_all
  have small: "2 powi (- 1022) \<le> \<bar>?q\<bar>"
    using tiny lo unfolding qa by linarith
  have "\<bar>fl ?q - ?q\<bar> \<le> \<bar>?q\<bar> / 2 ^ 53"
    by (rule fl_error [OF q0 small])
  then have e1: "\<bar>fl ?q - ?q\<bar> \<le> ?q / 9007199254740992"
    unfolding qa by simp
  have z1: "\<bar>z - ?V\<bar> \<le> ?V / 9007199254740992"
    using e1 unfolding z_def by linarith
  have zlo: "1 / 2 \<le> z" using z1 V1 by linarith
  then have z0: "z \<noteq> 0" and za: "\<bar>z\<bar> = z" by simp_all
  have zsmall: "2 powi (- 1022) \<le> \<bar>z\<bar>"
    using tiny zlo unfolding za by linarith
  have "\<bar>fl z - z\<bar> \<le> \<bar>z\<bar> / 2 ^ 53"
    by (rule fl_error [OF z0 zsmall])
  then have e2: "\<bar>fl z - z\<bar> \<le> z / 9007199254740992"
    unfolding za by simp
  show "?V - 1 < fl (fl ?q * 1000000)"
    using z1 e2 V1 V2 unfolding z_def by linarith
  show "fl (fl ?q * 1000000) < ?V + 1"
    using z1 e2 V1 V2 unfolding z_def by linarith
qed

lemma round_trip_float_exact:
  assumes "1 \<le> v" and "v < 2 ^ 53" and "v mod 1000000 = 0"
  shows "fl (fl (of_int v / 1000000) * 1000000) = of_int v"
proof -
  from assms(3) obtain k where k: "v = 1000000 * k" by auto
  with assms(1,2) have k0: "k \<noteq> 0" and k1: "\<bar>k\<bar> < 2 ^ 53" by auto
  have "(of_int v :: rat) / 1000000 = of_int k" by (simp add: k)
  then have "fl (of_int v / 1000000) * 1000000 = (of_int v :: rat)"
    by (simp add: fl_of_int [OF k0 k1] k)
  moreover have "fl (of_int v) = (of_int v :: rat)"
    using assms(1,2) by (intro fl_of_int) simp_all
  ultimately show ?thesis by simp
qed

text \<open>
  C9 (as amended). For a Lovelace value \<open>v\<close> with \<open>0 \<le> v < 2 ^ 52\<close>, converting to Ada
  and back returns \<open>v\<close> or \<open>v - 1\<close>, never more than \<open>v\<close>, and returns exactly \<open>v\<close> when
  \<open>v\<close> is a multiple of 1,000,000.
\<close>

theorem round_trip_bounds:
  assumes "0 \<le> v" and "v < 2 ^ 52"
  shows "(round_trip v = Inr v \<or> round_trip v = Inr (v - 1)) \<and>
         (v mod 1000000 = 0 \<longrightarrow> round_trip v = Inr v)"
proof (cases "v = 0")
  case True
  have "round_trip 0 = Inr 0"
    using round_trip_eq [of 0] by (simp add: fl_0 py_trunc_def)
  with True show ?thesis by simp
next
  case False
  with assms(1) have v1: "1 \<le> v" by simp
  from assms(2) have v53: "v < 2 ^ 53" by simp
  let ?y = "fl (fl (of_int v / 1000000) * 1000000)"
  note B = round_trip_float [OF v1 assms(2)]
  have ypos: "0 \<le> ?y" using B(1) v1 by simp
  then have t: "py_trunc ?y = \<lfloor>?y\<rfloor>" by (simp add: py_trunc_def)
  have "of_int (v - 1) \<le> ?y" using B(1) by simp
  then have lo: "v - 1 \<le> \<lfloor>?y\<rfloor>" by (simp only: le_floor_iff)
  have "?y < of_int (v + 1)" using B(2) by simp
  then have "\<lfloor>?y\<rfloor> < v + 1" by (simp only: floor_less_iff)
  then have hi: "\<lfloor>?y\<rfloor> \<le> v" by simp
  have "(of_int v :: rat) < of_int (2 ^ 52)"
    using assms(2) by (simp only: of_int_less_iff)
  then have "?y < 2 ^ 54" using B(2) by simp
  then have a: "\<bar>?y\<bar> < 2 ^ 54" using ypos by simp
  have b: "0 \<le> py_trunc ?y" using lo v1 unfolding t by linarith
  have c: "py_trunc ?y < 2 ^ 53" using hi v53 unfolding t by linarith
  have r: "round_trip v = Inr \<lfloor>?y\<rfloor>"
    using round_trip_eq [OF assms(1) v53 a b c] unfolding t .
  have "\<lfloor>?y\<rfloor> = v \<or> \<lfloor>?y\<rfloor> = v - 1" using lo hi by auto
  moreover have "\<lfloor>?y\<rfloor> = v" if "v mod 1000000 = 0"
    using round_trip_float_exact [OF v1 v53 that] by simp
  ultimately show ?thesis unfolding r by simp
qed

theorem round_trip_bounds_witness:
  "(round_trip 249 = Inr 249 \<or> round_trip 249 = Inr 248) \<and> round_trip 2000000 = Inr 2000000"
  using round_trip_bounds [of 249] round_trip_bounds [of 2000000] by simp

text \<open>
  The claim as stated covers every value. The quotient \<open>v / 1000000\<close> and the product
  \<open>a * 1000000\<close> are both rounded to 53 bits, so from \<open>2 ^ 52\<close> on the result may lie
  above \<open>v\<close>: 8701810445737016 is not a multiple of 1,000,000 and comes back one
  larger.
\<close>

theorem round_trip_rounds_up_counterexample:
  "round_trip 8701810445737016 = Inr 8701810445737017"
  by code_simp

text \<open>
  Below \<open>2 ^ 52\<close> a value does get lost (249 comes back as 248); a negative value is
  truncated toward zero, which is upward; and a large multiple of 1,000,000 does not come
  back either.
\<close>

lemma round_trip_249: "round_trip 249 = Inr 248"
  by code_simp

lemma round_trip_negative: "round_trip (- 249) = Inr (- 248)"
  by code_simp

lemma round_trip_large_multiple:
  "round_trip 9007199254740993000000 = Inr 9007199254740992000000"
  by code_simp

end
